theory Spec2Isabelle
  imports Main "HOL-Library.Word" "HOL-Library.Log_Nat"
begin

section \<open>JavaScript values\<close>

text \<open>
  A JavaScript string is a sequence of UTF-16 code units. The string literals of
  \<^verbatim>\<open>App.tsx\<close> use ASCII and the Latin-1 letters U+00E1 and U+00E9 only, each of
  which is one code unit; they are written here as \<open>CHR 0xE1\<close> and \<open>CHR 0xE9\<close>.
\<close>

type_synonym js_string = "16 word list"

definition lit :: "string \<Rightarrow> js_string" where
  "lit s = map of_char s"

text \<open>
  \<^verbatim>\<open>String(n)\<close> for a non-negative integer below \<open>2 ^ 53\<close>: its decimal digits.
\<close>

fun decimal :: "nat \<Rightarrow> js_string" where
  "decimal n =
     (if n < 10 then [of_nat (48 + n)]
      else decimal (n div 10) @ [of_nat (48 + n mod 10)])"

declare decimal.simps [simp del]

text \<open>
  A thrown value, as the \<^verbatim>\<open>catch\<close> clause of \<^verbatim>\<open>handleAnalyze\<close> tells them apart:
  an instance of \<^verbatim>\<open>Error\<close> with its \<^verbatim>\<open>message\<close>, or anything else.
\<close>

datatype js_thrown = ErrorObject js_string | OtherValue

subsection \<open>Numbers\<close>

text \<open>
  A JavaScript number is an IEEE 754 binary64 value. A finite one is kept as the
  rational it denotes; the two zeros are identified (they print alike).
  \<open>round_binary64\<close> rounds a rational to the nearest binary64 value, ties to even,
  with gradual underflow and overflow to infinity.
\<close>

datatype js_number = Finite rat | PlusInfinity | MinusInfinity | NaN

definition pow2 :: "int \<Rightarrow> rat" where
  "pow2 e = (if 0 \<le> e then 2 ^ nat e else 1 / 2 ^ nat (- e))"

definition ilog2 :: "rat \<Rightarrow> int" where
  "ilog2 q = (case quotient_of q of (n, d) \<Rightarrow>
     (let e = bitlen n - bitlen d in if pow2 e \<le> q then e else e - 1))"

definition round_half_even :: "rat \<Rightarrow> int" where
  "round_half_even q =
     (let f = \<lfloor>q\<rfloor>; r = q - of_int f
      in if r < 1 / 2 then f else if 1 / 2 < r then f + 1 else if even f then f else f + 1)"

definition round_binary64 :: "rat \<Rightarrow> js_number" where
  "round_binary64 q =
     (if q = 0 then Finite 0
      else let e = max (ilog2 \<bar>q\<bar> - 52) (- 1074);
               v = of_int (round_half_even (q / pow2 e)) * pow2 e
           in if 2 ^ 1024 \<le> \<bar>v\<bar> then (if 0 < q then PlusInfinity else MinusInfinity)
              else Finite v)"




subsection \<open>Parsed JSON\<close>

text \<open>
  What \<^verbatim>\<open>response.json()\<close> resolves with. An object is the list of its own
  properties; \<open>get_property\<close> is the property read \<^verbatim>\<open>data.key\<close>, \<open>None\<close> standing
  for \<^verbatim>\<open>undefined\<close> (no prototype has a property of the two names read here).
\<close>

datatype json =
    JNull
  | JBool bool
  | JNumber js_number
  | JString js_string
  | JArray "json list"
  | JObject "(js_string \<times> json) list"

fun truthy :: "json \<Rightarrow> bool" where
  "truthy JNull = False"
| "truthy (JBool b) = b"
| "truthy (JNumber n) = (n \<noteq> Finite 0 \<and> n \<noteq> NaN)"
| "truthy (JString s) = (s \<noteq> [])"
| "truthy (JArray _) = True"
| "truthy (JObject _) = True"

fun get_property :: "json \<Rightarrow> js_string \<Rightarrow> json option" where
  "get_property (JObject kvs) k = map_of kvs k"
| "get_property _ k = None"

section \<open>Module constants\<close>

definition MAX_FILE_SIZE :: nat where
  "MAX_FILE_SIZE = 10 * 1024 * 1024"

definition ALLOWED_TYPES :: "js_string list" where
  "ALLOWED_TYPES =
     [lit ''image/jpeg'', lit ''image/png'', lit ''image/jpg'', lit ''image/webp'']"

definition API_TIMEOUT :: nat where
  "API_TIMEOUT = 300000"

definition API_URL :: js_string where
  "API_URL =
     lit ''https://8004-01jmw8ynkyfpm5jpz096pk52m6.cloudspaces.litng.ai/predict/''"

text \<open>The message literals of the component, in the order of the source.\<close>

definition invalid_type_message :: js_string where
  "invalid_type_message =
     lit (''Tipo de arquivo inv'' @ [CHR 0xE1]
          @ ''lido. Por favor, envie uma imagem JPG, PNG ou WebP.'')"

definition too_large_message :: js_string where
  "too_large_message =
     lit (''Arquivo muito grande. O tamanho m'' @ [CHR 0xE1]
          @ ''ximo permitido '' @ [CHR 0xE9] @ '' 5MB.'')"

definition read_error_message :: js_string where
  "read_error_message = lit ''Erro ao ler o arquivo. Por favor, tente novamente.''"

definition invalid_response_message :: js_string where
  "invalid_response_message = lit (''Resposta inv'' @ [CHR 0xE1] @ ''lida do servidor.'')"

definition unknown_error_message :: js_string where
  "unknown_error_message = lit ''Erro desconhecido''"

definition error_label :: js_string where
  "error_label = lit (''Erro na An'' @ [CHR 0xE1] @ ''lise'')"

section \<open>The component state\<close>

text \<open>The \<^verbatim>\<open>File\<close> attributes the component reads, and the name the browser shows.\<close>

record File =
  file_name :: js_string
  file_type :: js_string
  file_size :: nat

text \<open>
  The value of the \<^verbatim>\<open>result\<close> state. TypeScript declares the fields a string and a
  number; at run time they hold whatever the parsed response held.
\<close>

record analysis =
  predicao :: json
  probabilidade :: json

record app_state =
  selectedImage :: "js_string option"
  result :: "analysis option"
  isLoading :: bool
  error :: "js_string option"

definition initial_state :: app_state where
  "initial_state =
     \<lparr>selectedImage = None, result = None, isLoading = False, error = None\<rparr>"

section \<open>validateFile\<close>

definition validateFile :: "File \<Rightarrow> js_string option" where
  "validateFile f =
     (if \<not> List.member ALLOWED_TYPES (file_type f) then Some invalid_type_message
      else if MAX_FILE_SIZE < file_size f then Some too_large_message
      else None)"

section \<open>Base64\<close>

text \<open>
  \<^verbatim>\<open>atob\<close> is the forgiving-base64 decode of the HTML standard, and
  \<^verbatim>\<open>FileReader.readAsDataURL\<close> produces \<^verbatim>\<open>data:<type>;base64,<data>\<close> with the
  padded base64 encoding of the file's bytes. Bytes are \<open>8 word\<close>; a sextet is a
  \<open>nat\<close> below 64.
\<close>

definition is_ascii_whitespace :: "16 word \<Rightarrow> bool" where
  "is_ascii_whitespace c = (c = 9 \<or> c = 10 \<or> c = 12 \<or> c = 13 \<or> c = 32)"

definition base64_digit :: "16 word \<Rightarrow> nat option" where
  "base64_digit c =
     (let n = unat c
      in if 65 \<le> n \<and> n \<le> 90 then Some (n - 65)
         else if 97 \<le> n \<and> n \<le> 122 then Some (n - 71)
         else if 48 \<le> n \<and> n \<le> 57 then Some (n + 4)
         else if n = 43 then Some 62
         else if n = 47 then Some 63
         else None)"

definition base64_char :: "nat \<Rightarrow> 16 word" where
  "base64_char v =
     of_nat (if v < 26 then v + 65
             else if v < 52 then v + 71
             else if v < 62 then v - 4
             else if v = 62 then 43
             else 47)"

text \<open>A trailing \<^verbatim>\<open>=\<close> or \<^verbatim>\<open>==\<close> is removed (code unit 61).\<close>

definition remove_padding :: "js_string \<Rightarrow> js_string" where
  "remove_padding d =
     (case rev d of
        c1 # c2 # r \<Rightarrow>
          if c1 = 61 \<and> c2 = 61 then rev r else if c1 = 61 then rev (c2 # r) else d
      | [c1] \<Rightarrow> if c1 = 61 then [] else d
      | [] \<Rightarrow> d)"

fun decode_sextets :: "nat list \<Rightarrow> 8 word list" where
  "decode_sextets (a # b # c # d # rest) =
     [of_nat (a * 4 + b div 16), of_nat ((b mod 16) * 16 + c div 4), of_nat ((c mod 4) * 64 + d)]
     @ decode_sextets rest"
| "decode_sextets [a, b, c] = [of_nat (a * 4 + b div 16), of_nat ((b mod 16) * 16 + c div 4)]"
| "decode_sextets [a, b] = [of_nat (a * 4 + b div 16)]"
| "decode_sextets [a] = []"
| "decode_sextets [] = []"

definition forgiving_base64_decode :: "js_string \<Rightarrow> 8 word list option" where
  "forgiving_base64_decode dat =
     (let d1 = filter (\<lambda>c. \<not> is_ascii_whitespace c) dat;
          d2 = (if length d1 mod 4 = 0 then remove_padding d1 else d1)
      in if length d2 mod 4 = 1 then None
         else if list_ex (\<lambda>c. base64_digit c = None) d2 then None
         else Some (decode_sextets (map (\<lambda>c. case base64_digit c of Some v \<Rightarrow> v | None \<Rightarrow> 0) d2)))"

text \<open>
  \<^verbatim>\<open>atob\<close> returns a binary string, one code unit per byte; \<open>None\<close> stands for
  the \<^verbatim>\<open>InvalidCharacterError\<close> it throws.
\<close>

definition atob :: "js_string \<Rightarrow> js_string option" where
  "atob dat = map_option (map ucast) (forgiving_base64_decode dat)"

fun base64_encode :: "8 word list \<Rightarrow> js_string" where
  "base64_encode (x # y # z # rest) =
     [base64_char (unat x div 4),
      base64_char ((unat x mod 4) * 16 + unat y div 16),
      base64_char ((unat y mod 16) * 4 + unat z div 64),
      base64_char (unat z mod 64)] @ base64_encode rest"
| "base64_encode [x, y] =
     [base64_char (unat x div 4),
      base64_char ((unat x mod 4) * 16 + unat y div 16),
      base64_char ((unat y mod 16) * 4),
      61]"
| "base64_encode [x] =
     [base64_char (unat x div 4), base64_char ((unat x mod 4) * 16), 61, 61]"
| "base64_encode [] = []"

definition data_url :: "js_string \<Rightarrow> 8 word list \<Rightarrow> js_string" where
  "data_url mime bytes = lit ''data:'' @ mime @ lit '';base64,'' @ base64_encode bytes"

section \<open>The request body\<close>

text \<open>\<^verbatim>\<open>s.split(',')\<close>, and the array read \<^verbatim>\<open>xs[i]\<close> with \<open>None\<close> for \<^verbatim>\<open>undefined\<close>.\<close>

fun split :: "16 word \<Rightarrow> js_string \<Rightarrow> js_string list" where
  "split sep [] = [[]]"
| "split sep (c # cs) =
     (if c = sep then [] # split sep cs
      else (case split sep cs of p # ps \<Rightarrow> (c # p) # ps | [] \<Rightarrow> [[c]]))"

definition index :: "'a list \<Rightarrow> nat \<Rightarrow> 'a option" where
  "index xs i = (if i < length xs then Some (xs ! i) else None)"

text \<open>\<^verbatim>\<open>s.slice(a, b)\<close> for \<open>0 \<le> a \<le> b\<close>.\<close>

definition slice :: "js_string \<Rightarrow> nat \<Rightarrow> nat \<Rightarrow> js_string" where
  "slice s a b = take (b - a) (drop a s)"

text \<open>
  The loop of lines 59 to 68: slices of 1024 characters, each turned into a
  \<^verbatim>\<open>Uint8Array\<close> of its character codes (a code is stored modulo 256).
\<close>

function byte_arrays :: "js_string \<Rightarrow> nat \<Rightarrow> 8 word list list \<Rightarrow> 8 word list list" where
  "byte_arrays byteCharacters offset byteArrays =
     (if offset < length byteCharacters
      then byte_arrays byteCharacters (offset + 1024)
             (byteArrays @ [map ucast (slice byteCharacters offset (offset + 1024))])
      else byteArrays)"
  by pat_completeness auto
termination
  by (relation "measure (\<lambda>(s, offset, acc). length s - offset)") auto

declare byte_arrays.simps [simp del]

record Blob =
  blob_bytes :: "8 word list"
  blob_type :: js_string

record form_entry =
  entry_name :: js_string
  entry_value :: Blob
  entry_filename :: js_string

record request =
  request_url :: js_string
  request_method :: js_string
  request_body :: "form_entry list"

section \<open>The handlers\<close>

text \<open>
  A handler is the list of the effects it performs, in program order. The state
  setters of React are queued and applied in that order; the state a handler reads
  is the one of the render it was created in.
\<close>

datatype source = Picker | DropZone

datatype action =
    SetSelectedImage "js_string option"
  | SetResult "analysis option"
  | SetIsLoading bool
  | SetError "js_string option"
  | SetTargetValue js_string
  | PreventDefault
  | ReadAsDataURL source File
  | SetTimeout nat
  | ClearTimeout
  | Fetch request

text \<open>The truth value of a \<^verbatim>\<open>string | null\<close>.\<close>

definition string_truthy :: "js_string option \<Rightarrow> bool" where
  "string_truthy v = (case v of None \<Rightarrow> False | Some s \<Rightarrow> s \<noteq> [])"

definition handleImageUpload :: "File list \<Rightarrow> action list" where
  "handleImageUpload files =
     [SetError None, SetResult None] @
     (case index files 0 of
        None \<Rightarrow> []
      | Some file \<Rightarrow>
          (let validationError = validateFile file
           in if string_truthy validationError
              then [SetError validationError, SetTargetValue []]
              else [ReadAsDataURL Picker file]))"

definition handleDrop :: "File list \<Rightarrow> action list" where
  "handleDrop files =
     [PreventDefault] @
     (case index files 0 of
        None \<Rightarrow> []
      | Some file \<Rightarrow>
          (let validationError = validateFile file
           in if string_truthy validationError
              then [SetError validationError]
              else [ReadAsDataURL DropZone file]))"

definition handleDragOver :: "action list" where
  "handleDragOver = [PreventDefault]"

subsection \<open>The FileReader callbacks\<close>

text \<open>
  The callbacks each handler installs. A \<^verbatim>\<open>FileReader\<close> whose read succeeds fires
  \<^verbatim>\<open>load\<close> and then \<^verbatim>\<open>loadend\<close>, with the data URL in \<^verbatim>\<open>result\<close>; one whose read
  fails sets \<^verbatim>\<open>result\<close> to \<^verbatim>\<open>null\<close> and fires \<^verbatim>\<open>error\<close> and then \<^verbatim>\<open>loadend\<close>
  (File API, read operation).
\<close>

fun onloadend :: "source \<Rightarrow> js_string option \<Rightarrow> action list" where
  "onloadend Picker reader_result = [SetSelectedImage reader_result]"
| "onloadend DropZone reader_result = [SetSelectedImage reader_result, SetResult None]"

definition onerror :: "source \<Rightarrow> action list" where
  "onerror src = [SetError (Some read_error_message)]"

datatype read_outcome = Loaded js_string | ReadFailed

fun reader_events :: "source \<Rightarrow> read_outcome \<Rightarrow> action list" where
  "reader_events src (Loaded url) = onloadend src (Some url)"
| "reader_events src ReadFailed = onerror src @ onloadend src None"

subsection \<open>handleAnalyze\<close>

text \<open>
  The messages of the two exceptions the browser itself creates: the
  \<^verbatim>\<open>InvalidCharacterError\<close> of \<^verbatim>\<open>atob\<close> and the \<^verbatim>\<open>AbortError\<close> of an aborted
  fetch. Their wording differs between engines.
\<close>

record browser =
  invalid_character_message :: js_string
  abort_message :: js_string

definition error_result :: analysis where
  "error_result = \<lparr>predicao = JString error_label, probabilidade = JNumber (Finite 0)\<rparr>"

definition catch_block :: "js_thrown \<Rightarrow> action list" where
  "catch_block e =
     (let errorMessage = (case e of ErrorObject m \<Rightarrow> m | OtherValue \<Rightarrow> unknown_error_message)
      in [SetError (Some errorMessage), SetResult (Some error_result)])"

definition finally_block :: "action list" where
  "finally_block = [SetIsLoading False]"

text \<open>
  \<^verbatim>\<open>handleAnalyze\<close> is an async function: it runs to its first \<^verbatim>\<open>await\<close> and is
  resumed when the awaited promise settles. Each part returns its effects and, unless
  the function has finished, the \<^verbatim>\<open>await\<close> it stops at.
\<close>

datatype await = AwaitFetch | AwaitText nat | AwaitJson

definition handleAnalyze :: "browser \<Rightarrow> js_string option \<Rightarrow> action list \<times> await option" where
  "handleAnalyze br selected =
     (if \<not> string_truthy selected then ([], None)
      else
        let img = (case selected of Some s \<Rightarrow> s | None \<Rightarrow> []);
            start = [SetIsLoading True, SetError None, SetResult None];
            base64Data = index (split 44 img) 1
        in case atob (case base64Data of Some d \<Rightarrow> d | None \<Rightarrow> lit ''undefined'') of
             None \<Rightarrow>
               (start @ catch_block (ErrorObject (invalid_character_message br)) @ finally_block,
                None)
           | Some byteCharacters \<Rightarrow>
               let byteArrays = byte_arrays byteCharacters 0 [];
                   imageBlob = \<lparr>blob_bytes = concat byteArrays, blob_type = lit ''image/png''\<rparr>;
                   formData = [\<lparr>entry_name = lit ''file'', entry_value = imageBlob,
                                entry_filename = lit ''image.png''\<rparr>]
               in (start @
                   [SetTimeout API_TIMEOUT,
                    Fetch \<lparr>request_url = API_URL, request_method = lit ''POST'',
                           request_body = formData\<rparr>],
                   Some AwaitFetch))"

text \<open>\<^verbatim>\<open>response.ok\<close>: the status is in the range 200 to 299.\<close>

definition response_ok :: "nat \<Rightarrow> bool" where
  "response_ok status = (200 \<le> status \<and> status \<le> 299)"

definition after_fetch :: "js_thrown + nat \<Rightarrow> action list \<times> await option" where
  "after_fetch settled =
     (case settled of
        Inl e \<Rightarrow> (catch_block e @ finally_block, None)
      | Inr status \<Rightarrow>
          ([ClearTimeout], Some (if \<not> response_ok status then AwaitText status else AwaitJson)))"

definition after_text :: "nat \<Rightarrow> js_thrown + js_string \<Rightarrow> action list" where
  "after_text status settled =
     (case settled of
        Inl e \<Rightarrow> catch_block e @ finally_block
      | Inr body \<Rightarrow>
          catch_block
            (ErrorObject (lit ''Erro do servidor ('' @ decimal status @ lit ''): '' @ body))
          @ finally_block)"

definition after_json :: "js_thrown + json \<Rightarrow> action list" where
  "after_json settled =
     (case settled of
        Inl e \<Rightarrow> catch_block e @ finally_block
      | Inr data \<Rightarrow>
          if \<not> truthy data then catch_block (ErrorObject invalid_response_message) @ finally_block
          else
            (case (get_property data (lit ''predicao''), get_property data (lit ''probabilidade'')) of
               (Some p, Some q) \<Rightarrow>
                 [SetResult (Some \<lparr>predicao = p, probabilidade = q\<rparr>)] @ finally_block
             | _ \<Rightarrow> catch_block (ErrorObject invalid_response_message) @ finally_block))"

section \<open>The rendered view\<close>

definition button_disabled :: "app_state \<Rightarrow> bool" where
  "button_disabled st = (\<not> string_truthy (selectedImage st) \<or> isLoading st)"

definition drop_zone_rendered :: "app_state \<Rightarrow> bool" where
  "drop_zone_rendered st = (\<not> string_truthy (selectedImage st))"



text \<open>
  The result card (lines 201 to 213) is rendered when \<^verbatim>\<open>result\<close> is not \<^verbatim>\<open>null\<close>.
  Its class expression calls \<^verbatim>\<open>result.predicao.includes("Erro")\<close>: a string and an
  array have the method; on \<^verbatim>\<open>null\<close>, a boolean, a number or an object the call
  throws a \<^verbatim>\<open>TypeError\<close>. The card then shows \<^verbatim>\<open>{result.predicao}\<close>, and React
  throws on a child that is an object. The product \<^verbatim>\<open>result.probabilidade * 100\<close>
  never throws. \<open>renders\<close> holds when the render of the view does not throw; when it
  throws, React unmounts the component.
\<close>

fun has_includes :: "json \<Rightarrow> bool" where
  "has_includes (JString s) = True"
| "has_includes (JArray xs) = True"
| "has_includes _ = False"

fun react_child :: "json \<Rightarrow> bool" where
  "react_child (JObject kvs) = False"
| "react_child (JArray xs) = list_all react_child xs"
| "react_child _ = True"

definition renders :: "app_state \<Rightarrow> bool" where
  "renders st =
     (case result st of
        None \<Rightarrow> True
      | Some r \<Rightarrow> has_includes (predicao r) \<and> react_child (predicao r))"

section \<open>The component in its environment\<close>

text \<open>
  The world is the React state, the value of the file input, the clock (in ms) and
  what is pending: the file readers still reading, the suspended calls of
  \<^verbatim>\<open>handleAnalyze\<close> with the \<^verbatim>\<open>await\<close> each stops at, the armed timers with their
  deadlines, and the requests handed to \<^verbatim>\<open>fetch\<close>.
\<close>

record world =
  view :: app_state
  input_value :: js_string
  now :: nat
  next_id :: nat
  readers :: "(nat \<times> source) list"
  calls :: "(nat \<times> await) list"
  timers :: "(nat \<times> nat) list"
  sent :: "(nat \<times> request) list"

definition initial_world :: world where
  "initial_world =
     \<lparr>view = initial_state, input_value = [], now = 0, next_id = 0,
      readers = [], calls = [], timers = [], sent = []\<rparr>"

definition without :: "nat \<Rightarrow> (nat \<times> 'a) list \<Rightarrow> (nat \<times> 'a) list" where
  "without i xs = filter (\<lambda>p. fst p \<noteq> i) xs"

text \<open>One effect of the call (or handler run) \<open>i\<close>.\<close>

fun exec :: "nat \<Rightarrow> action \<Rightarrow> world \<Rightarrow> world" where
  "exec i (SetSelectedImage v) w = w\<lparr>view := (view w)\<lparr>selectedImage := v\<rparr>\<rparr>"
| "exec i (SetResult v) w = w\<lparr>view := (view w)\<lparr>result := v\<rparr>\<rparr>"
| "exec i (SetIsLoading v) w = w\<lparr>view := (view w)\<lparr>isLoading := v\<rparr>\<rparr>"
| "exec i (SetError v) w = w\<lparr>view := (view w)\<lparr>error := v\<rparr>\<rparr>"
| "exec i (SetTargetValue v) w = w\<lparr>input_value := v\<rparr>"
| "exec i PreventDefault w = w"
| "exec i (ReadAsDataURL src f) w =
     w\<lparr>readers := readers w @ [(next_id w, src)], next_id := next_id w + 1\<rparr>"
| "exec i (SetTimeout ms) w = w\<lparr>timers := timers w @ [(i, now w + ms)]\<rparr>"
| "exec i ClearTimeout w = w\<lparr>timers := without i (timers w)\<rparr>"
| "exec i (Fetch req) w = w\<lparr>sent := sent w @ [(i, req)]\<rparr>"

fun execs :: "nat \<Rightarrow> action list \<Rightarrow> world \<Rightarrow> world" where
  "execs i [] w = w"
| "execs i (a # as) w = execs i as (exec i a w)"

text \<open>The call \<open>i\<close> stops at an \<^verbatim>\<open>await\<close>, or has finished.\<close>

definition suspend :: "nat \<Rightarrow> await option \<Rightarrow> world \<Rightarrow> world" where
  "suspend i aw w =
     (case aw of
        None \<Rightarrow> w\<lparr>calls := without i (calls w)\<rparr>
      | Some a \<Rightarrow> w\<lparr>calls := without i (calls w) @ [(i, a)]\<rparr>)"

text \<open>
  The value the browser gives the file input when the user has chosen \<open>files\<close>,
  before the \<^verbatim>\<open>change\<close> event is dispatched.
\<close>

definition chosen_value :: "File list \<Rightarrow> js_string" where
  "chosen_value files =
     (case index files 0 of
        None \<Rightarrow> []
      | Some f \<Rightarrow> lit (''C:'' @ [CHR 0x5C] @ ''fakepath'' @ [CHR 0x5C]) @ file_name f)"

datatype event =
    Tick nat
  | Change "File list"
  | Drop "File list"
  | DragOver
  | ReaderDone nat read_outcome
  | ClickAnalyze
  | FetchSettled nat "js_thrown + nat"
  | TextSettled nat "js_thrown + js_string"
  | JsonSettled nat "js_thrown + json"
  | TimerFired nat

text \<open>
  One event of the environment; \<open>None\<close> when the event cannot occur in the world: a
  click on the disabled button, a drop while the drop zone is not rendered, the
  completion of something that is not pending, a timer before its deadline. The timer
  callback is \<^verbatim>\<open>controller.abort()\<close>: it rejects the fetch of its call if that is still
  pending, and does nothing otherwise. A step is the effect of the handler on the
  world; the render that follows it is not part of the step, and \<open>renders\<close> tells
  whether that render succeeds.
\<close>

fun step :: "browser \<Rightarrow> world \<Rightarrow> event \<Rightarrow> world option" where
  "step br w (Tick n) = Some (w\<lparr>now := now w + n\<rparr>)"
| "step br w (Change files) =
     Some (execs (next_id w) (handleImageUpload files) (w\<lparr>input_value := chosen_value files\<rparr>))"
| "step br w (Drop files) =
     (if drop_zone_rendered (view w) then Some (execs (next_id w) (handleDrop files) w)
      else None)"
| "step br w DragOver =
     (if drop_zone_rendered (view w) then Some (execs (next_id w) handleDragOver w) else None)"
| "step br w (ReaderDone i outcome) =
     (case map_of (readers w) i of
        None \<Rightarrow> None
      | Some src \<Rightarrow> Some (execs i (reader_events src outcome) (w\<lparr>readers := without i (readers w)\<rparr>)))"
| "step br w ClickAnalyze =
     (if button_disabled (view w) then None
      else
        (case handleAnalyze br (selectedImage (view w)) of
           (acts, aw) \<Rightarrow>
             Some (suspend (next_id w) aw (execs (next_id w) acts (w\<lparr>next_id := next_id w + 1\<rparr>)))))"
| "step br w (FetchSettled i settled) =
     (case map_of (calls w) i of
        Some AwaitFetch \<Rightarrow>
          (case after_fetch settled of (acts, aw) \<Rightarrow> Some (suspend i aw (execs i acts w)))
      | _ \<Rightarrow> None)"
| "step br w (TextSettled i settled) =
     (case map_of (calls w) i of
        Some (AwaitText status) \<Rightarrow> Some (suspend i None (execs i (after_text status settled) w))
      | _ \<Rightarrow> None)"
| "step br w (JsonSettled i settled) =
     (case map_of (calls w) i of
        Some AwaitJson \<Rightarrow> Some (suspend i None (execs i (after_json settled) w))
      | _ \<Rightarrow> None)"
| "step br w (TimerFired i) =
     (case map_of (timers w) i of
        None \<Rightarrow> None
      | Some deadline \<Rightarrow>
          if now w < deadline then None
          else
            (let w' = w\<lparr>timers := without i (timers w)\<rparr>
             in case map_of (calls w') i of
                  Some AwaitFetch \<Rightarrow>
                    (case after_fetch (Inl (ErrorObject (abort_message br))) of
                       (acts, aw) \<Rightarrow> Some (suspend i aw (execs i acts w')))
                | _ \<Rightarrow> Some w'))"

fun run :: "browser \<Rightarrow> world \<Rightarrow> event list \<Rightarrow> world option" where
  "run br w [] = Some w"
| "run br w (e # es) = (case step br w e of None \<Rightarrow> None | Some w' \<Rightarrow> run br w' es)"

text \<open>
  Two properties of a world: the identifiers in use lie below the next fresh one,
  and the loading flag is set exactly while a call of \<^verbatim>\<open>handleAnalyze\<close> is
  suspended, of which there is at most one.
\<close>

definition ids_below :: "nat \<Rightarrow> (nat \<times> 'a) list \<Rightarrow> bool" where
  "ids_below n xs = list_all (\<lambda>p. fst p < n) xs"

definition fresh_ids :: "world \<Rightarrow> bool" where
  "fresh_ids w =
     (ids_below (next_id w) (readers w) \<and> ids_below (next_id w) (calls w)
      \<and> ids_below (next_id w) (timers w))"

definition one_call :: "world \<Rightarrow> bool" where
  "one_call w = (length (calls w) \<le> 1 \<and> (isLoading (view w) = (calls w \<noteq> [])))"

text \<open>
  The file intake as a whole: the event of the picker or of the drop zone and, when
  the handler has started a reader, the completion of that reader.
\<close>

definition intake :: "(File list \<Rightarrow> event) \<Rightarrow> File list \<Rightarrow> read_outcome \<Rightarrow> world \<Rightarrow> event list" where
  "intake ev files outcome w =
     (case index files 0 of
        None \<Rightarrow> [ev files]
      | Some f \<Rightarrow>
          if string_truthy (validateFile f) then [ev files]
          else [ev files, ReaderDone (next_id w) outcome])"

text \<open>An analysis has ended in failure with the message \<open>m\<close>.\<close>

definition failed_with :: "js_string \<Rightarrow> world option \<Rightarrow> bool" where
  "failed_with m r =
     (case r of
        None \<Rightarrow> False
      | Some w \<Rightarrow>
          error (view w) = Some m \<and> result (view w) = Some error_result
          \<and> \<not> isLoading (view w))"

section \<open>Sample values\<close>

text \<open>
  A browser with the wording of Firefox, three small files, and the data URL that
  reading the first of them gives, for the concrete runs below.
\<close>

definition firefox :: browser where
  "firefox =
     \<lparr>invalid_character_message = lit ''String contains an invalid character'',
      abort_message = lit ''The operation was aborted. ''\<rparr>"

definition xray_jpg :: File where
  "xray_jpg = \<lparr>file_name = lit ''xray.jpg'', file_type = lit ''image/jpeg'', file_size = 4\<rparr>"

definition xray_jpg_url :: js_string where
  "xray_jpg_url = data_url (lit ''image/jpeg'') [0xFF, 0xD8, 0xFF, 0xE0]"

definition scan_png :: File where
  "scan_png = \<lparr>file_name = lit ''scan.png'', file_type = lit ''image/png'', file_size = 8\<rparr>"

definition notes_gif :: File where
  "notes_gif = \<lparr>file_name = lit ''notes.gif'', file_type = lit ''image/gif'', file_size = 6\<rparr>"

text \<open>
  Worlds of one session: the picker has delivered the JPEG and its reader is reading;
  the image is selected; the analysis has been started and its fetch is pending; a
  response with status 200 has arrived and its body is being parsed; the result is
  shown. And the world in which the picker has just rejected the GIF.
\<close>

definition reading_world :: world where
  "reading_world =
     \<lparr>view = initial_state, input_value = chosen_value [xray_jpg], now = 0, next_id = 1,
      readers = [(0, Picker)], calls = [], timers = [], sent = []\<rparr>"

definition selected_world :: world where
  "selected_world =
     \<lparr>view = \<lparr>selectedImage = Some xray_jpg_url, result = None, isLoading = False, error = None\<rparr>,
      input_value = chosen_value [xray_jpg], now = 0, next_id = 1,
      readers = [], calls = [], timers = [], sent = []\<rparr>"

definition fetching_world :: world where
  "fetching_world =
     \<lparr>view = \<lparr>selectedImage = Some xray_jpg_url, result = None, isLoading = True, error = None\<rparr>,
      input_value = chosen_value [xray_jpg], now = 0, next_id = 2,
      readers = [], calls = [(1, AwaitFetch)], timers = [(1, 300000)],
      sent = [(1, \<lparr>request_url = API_URL, request_method = lit ''POST'',
                   request_body =
                     [\<lparr>entry_name = lit ''file'',
                       entry_value = \<lparr>blob_bytes = [0xFF, 0xD8, 0xFF, 0xE0],
                                      blob_type = lit ''image/png''\<rparr>,
                       entry_filename = lit ''image.png''\<rparr>]\<rparr>)]\<rparr>"

definition parsing_world :: world where
  "parsing_world = fetching_world\<lparr>calls := [(1, AwaitJson)], timers := []\<rparr>"

definition rejected_world :: world where
  "rejected_world = initial_world\<lparr>view := initial_state\<lparr>error := Some invalid_type_message\<rparr>\<rparr>"

definition shown_world :: world where
  "shown_world =
     parsing_world
       \<lparr>view :=
          \<lparr>selectedImage = Some xray_jpg_url,
           result = Some \<lparr>predicao = JString (lit ''Tuberculose''),
                          probabilidade = JNumber (round_binary64 (87 / 100))\<rparr>,
           isLoading = False, error = None\<rparr>,
        calls := []\<rparr>"

section \<open>Facts about the values\<close>

lemma set_ALLOWED_TYPES:
  "set ALLOWED_TYPES =
     {lit ''image/jpeg'', lit ''image/png'', lit ''image/jpg'', lit ''image/webp''}"
  by (simp add: ALLOWED_TYPES_def)

lemma messages_differ: "invalid_type_message \<noteq> too_large_message"
  by (simp add: invalid_type_message_def too_large_message_def lit_def)

subsection \<open>Rounding to binary64\<close>













subsection \<open>Base64 round trip\<close>

lemma base64_digit_char: "v < 64 \<Longrightarrow> base64_digit (base64_char v) = Some v"
  by (auto simp: base64_digit_def base64_char_def Let_def unat_of_nat)

lemma base64_digit_Some:
  "base64_digit c = Some v \<Longrightarrow> c \<noteq> 61 \<and> c \<noteq> 44 \<and> \<not> is_ascii_whitespace c"
  by (auto simp: base64_digit_def is_ascii_whitespace_def Let_def split: if_splits)

lemma byte_arith1: "(b::nat) < 256 \<Longrightarrow> a div 4 * 4 + (a mod 4 * 16 + b div 16) div 16 = a"
  by simp

lemma byte_arith2:
  "(b::nat) < 256 \<Longrightarrow> (c::nat) < 256 \<Longrightarrow>
     ((a mod 4 * 16 + b div 16) mod 16) * 16 + (b mod 16 * 4 + c div 64) div 4 = b"
proof -
  assume "b < 256" "c < 256"
  then have "b div 16 < 16" "c div 64 < 4" by simp_all
  then show ?thesis by simp
qed

lemma byte_arith3:
  "(c::nat) < 256 \<Longrightarrow> ((b mod 16 * 4 + c div 64) mod 4) * 64 + c mod 64 = c"
proof -
  assume "c < 256"
  then have "c div 64 < 4" by simp
  then show ?thesis by simp
qed

lemma byte_arith2_last:
  "(b::nat) < 256 \<Longrightarrow> ((a mod 4 * 16 + b div 16) mod 16) * 16 + (b mod 16 * 4) div 4 = b"
proof -
  assume "b < 256"
  then have "b div 16 < 16" by simp
  then show ?thesis by simp
qed

lemma byte_arith1_last: "a div 4 * 4 + (a mod 4 * 16) div 16 = (a::nat)"
  by simp

lemma sextet_bound1: "(a::nat) < 256 \<Longrightarrow> a div 4 < 64"
  by simp

lemma sextet_bound2: "(b::nat) < 256 \<Longrightarrow> a mod 4 * 16 + b div 16 < 64"
proof -
  assume "b < 256"
  then have "b div 16 < 16" by simp
  moreover have "a mod 4 < 4" by simp
  ultimately show ?thesis by linarith
qed

lemma sextet_bound3: "(c::nat) < 256 \<Longrightarrow> b mod 16 * 4 + c div 64 < 64"
proof -
  assume "c < 256"
  then have "c div 64 < 4" by simp
  moreover have "b mod 16 < 16" by simp
  ultimately show ?thesis by linarith
qed

lemma sextet_bound4: "(a::nat) mod 4 * 16 < 64"
proof -
  have "a mod 4 < 4" by simp
  then show ?thesis by linarith
qed

lemma sextet_bound5: "(b::nat) mod 16 * 4 < 64"
proof -
  have "b mod 16 < 16" by simp
  then show ?thesis by linarith
qed

lemma unat_byte: "unat (x :: 8 word) < 256"
  using unsigned_less [of x, where 'a = nat] by simp

lemma digit_char_simps [simp]:
  fixes x y z :: "8 word"
  shows "base64_digit (base64_char (unat x div 4)) = Some (unat x div 4)"
    and "base64_digit (base64_char (unat x mod 4 * 16 + unat y div 16))
           = Some (unat x mod 4 * 16 + unat y div 16)"
    and "base64_digit (base64_char (unat y mod 16 * 4 + unat z div 64))
           = Some (unat y mod 16 * 4 + unat z div 64)"
    and "base64_digit (base64_char (unat z mod 64)) = Some (unat z mod 64)"
    and "base64_digit (base64_char (unat x mod 4 * 16)) = Some (unat x mod 4 * 16)"
    and "base64_digit (base64_char (unat y mod 16 * 4)) = Some (unat y mod 16 * 4)"
  by (simp_all add: base64_digit_char sextet_bound1 sextet_bound2 sextet_bound3 sextet_bound4
        sextet_bound5 unat_byte)

lemma char_plain_simps [simp]:
  fixes x y z :: "8 word"
  shows "base64_char (unat x div 4) \<noteq> 61"
    and "base64_char (unat x mod 4 * 16 + unat y div 16) \<noteq> 61"
    and "base64_char (unat y mod 16 * 4 + unat z div 64) \<noteq> 61"
    and "base64_char (unat z mod 64) \<noteq> 61"
    and "base64_char (unat x mod 4 * 16) \<noteq> 61"
    and "base64_char (unat y mod 16 * 4) \<noteq> 61"
    and "\<not> is_ascii_whitespace (base64_char (unat x div 4))"
    and "\<not> is_ascii_whitespace (base64_char (unat x mod 4 * 16 + unat y div 16))"
    and "\<not> is_ascii_whitespace (base64_char (unat y mod 16 * 4 + unat z div 64))"
    and "\<not> is_ascii_whitespace (base64_char (unat z mod 64))"
    and "\<not> is_ascii_whitespace (base64_char (unat x mod 4 * 16))"
    and "\<not> is_ascii_whitespace (base64_char (unat y mod 16 * 4))"
    and "base64_char (unat x div 4) \<noteq> 44"
    and "base64_char (unat x mod 4 * 16 + unat y div 16) \<noteq> 44"
    and "base64_char (unat y mod 16 * 4 + unat z div 64) \<noteq> 44"
    and "base64_char (unat z mod 64) \<noteq> 44"
    and "base64_char (unat x mod 4 * 16) \<noteq> 44"
    and "base64_char (unat y mod 16 * 4) \<noteq> 44"
  using base64_digit_Some [OF digit_char_simps(1), of x]
    base64_digit_Some [OF digit_char_simps(2), of x y]
    base64_digit_Some [OF digit_char_simps(3), of y z]
    base64_digit_Some [OF digit_char_simps(4), of z]
    base64_digit_Some [OF digit_char_simps(5), of x]
    base64_digit_Some [OF digit_char_simps(6), of y]
  by simp_all

lemma pad_not_whitespace: "\<not> is_ascii_whitespace 61"
  by (simp add: is_ascii_whitespace_def)

lemma encode_length: "length (base64_encode bs) mod 4 = 0"
  by (induction bs rule: base64_encode.induct) simp_all

lemma encode_long: "bs \<noteq> [] \<Longrightarrow> 2 \<le> length (base64_encode bs)"
  by (induction bs rule: base64_encode.induct) simp_all

lemma encode_no_whitespace:
  "filter (\<lambda>c. \<not> is_ascii_whitespace c) (base64_encode bs) = base64_encode bs"
  by (induction bs rule: base64_encode.induct) (simp_all add: pad_not_whitespace)

lemma encode_no_comma: "44 \<notin> set (base64_encode bs)"
  by (induction bs rule: base64_encode.induct) simp_all

lemma remove_padding_append:
  assumes "2 \<le> length ys"
  shows "remove_padding (xs @ ys) = xs @ remove_padding ys"
proof -
  from assms obtain ys' a where 1: "ys = ys' @ [a]"
    by (cases ys rule: rev_cases) auto
  with assms obtain zs b where 2: "ys' = zs @ [b]"
    by (cases ys' rule: rev_cases) auto
  show ?thesis by (simp add: 1 2 remove_padding_def)
qed

lemma of_nat_unat_byte: "n = unat x \<Longrightarrow> (of_nat n :: 8 word) = x"
  by simp

lemma decode_group:
  fixes x y z :: "8 word"
  shows "decode_sextets
           (unat x div 4 # (unat x mod 4 * 16 + unat y div 16)
            # (unat y mod 16 * 4 + unat z div 64) # unat z mod 64 # rest)
         = x # y # z # decode_sextets rest"
    and "decode_sextets [unat x div 4, unat x mod 4 * 16 + unat y div 16, unat y mod 16 * 4]
         = [x, y]"
    and "decode_sextets [unat x div 4, unat x mod 4 * 16] = [x]"
proof -
  have 1: "unat x div 4 * 4 + (unat x mod 4 * 16 + unat y div 16) div 16 = unat x"
    by (rule byte_arith1) (rule unat_byte)
  have 2: "(unat x mod 4 * 16 + unat y div 16) mod 16 * 16
             + (unat y mod 16 * 4 + unat z div 64) div 4 = unat y"
    by (rule byte_arith2) (rule unat_byte)+
  have 3: "(unat y mod 16 * 4 + unat z div 64) mod 4 * 64 + unat z mod 64 = unat z"
    by (rule byte_arith3) (rule unat_byte)
  have 4: "(unat x mod 4 * 16 + unat y div 16) mod 16 * 16 + (unat y mod 16 * 4) div 4 = unat y"
    by (rule byte_arith2_last) (rule unat_byte)
  have 5: "unat x div 4 * 4 + (unat x mod 4 * 16) div 16 = unat x"
    by (rule byte_arith1_last)
  show "decode_sextets
           (unat x div 4 # (unat x mod 4 * 16 + unat y div 16)
            # (unat y mod 16 * 4 + unat z div 64) # unat z mod 64 # rest)
         = x # y # z # decode_sextets rest"
    by (simp only: decode_sextets.simps 1 2 3 of_nat_unat_byte append_Cons append_Nil)
  show "decode_sextets [unat x div 4, unat x mod 4 * 16 + unat y div 16, unat y mod 16 * 4]
         = [x, y]"
    by (simp only: decode_sextets.simps 1 4 of_nat_unat_byte)
  show "decode_sextets [unat x div 4, unat x mod 4 * 16] = [x]"
    by (simp only: decode_sextets.simps 5 of_nat_unat_byte)
qed

lemma decode_remove_padding_encode:
  "length (remove_padding (base64_encode bs)) mod 4 \<noteq> 1
   \<and> \<not> list_ex (\<lambda>c. base64_digit c = None) (remove_padding (base64_encode bs))
   \<and> decode_sextets
        (map (\<lambda>c. case base64_digit c of Some v \<Rightarrow> v | None \<Rightarrow> 0)
           (remove_padding (base64_encode bs))) = bs"
proof (induction bs rule: base64_encode.induct)
  case (1 x y z rest)
  show ?case
  proof (cases "rest = []")
    case True
    then show ?thesis by (simp add: remove_padding_def decode_group del: decode_sextets.simps(1,2,3))
  next
    case False
    then have "2 \<le> length (base64_encode rest)" by (rule encode_long)
    then have "remove_padding (base64_encode (x # y # z # rest)) =
        [base64_char (unat x div 4),
         base64_char ((unat x mod 4) * 16 + unat y div 16),
         base64_char ((unat y mod 16) * 4 + unat z div 64),
         base64_char (unat z mod 64)] @ remove_padding (base64_encode rest)"
      by (simp only: base64_encode.simps remove_padding_append)
    with 1 show ?thesis by (simp add: decode_group del: decode_sextets.simps(1,2,3))
  qed
next
  case (2 x y)
  then show ?case by (simp add: remove_padding_def decode_group del: decode_sextets.simps(1,2,3))
next
  case (3 x)
  then show ?case by (simp add: remove_padding_def decode_group del: decode_sextets.simps(1,2,3))
next
  case 4
  then show ?case by (simp add: remove_padding_def decode_group del: decode_sextets.simps(1,2,3))
qed

lemma forgiving_base64_decode_encode: "forgiving_base64_decode (base64_encode bs) = Some bs"
  using decode_remove_padding_encode [of bs]
  by (simp add: forgiving_base64_decode_def encode_no_whitespace encode_length Let_def)

lemma atob_encode: "atob (base64_encode bs) = Some (map ucast bs)"
  by (simp add: atob_def forgiving_base64_decode_encode)

subsection \<open>The request body\<close>

lemma split_no_sep: "sep \<notin> set s \<Longrightarrow> split sep s = [s]"
  by (induction s) auto

lemma split_append_sep: "sep \<notin> set a \<Longrightarrow> split sep (a @ sep # b) = a # split sep b"
  by (induction a) auto

lemma index_simps: "index (a # b # xs) 1 = Some b" "index (x # xs) 0 = Some x" "index [] 0 = None"
  by (simp_all add: index_def)

lemma concat_byte_arrays:
  "concat (byte_arrays s offset acc) = concat acc @ map ucast (drop offset s)"
proof (induction s offset acc rule: byte_arrays.induct)
  case (1 s offset acc)
  show ?case
  proof (cases "offset < length s")
    case True
    have "drop (offset + 1024) s = drop 1024 (drop offset s)"
      by (simp only: drop_drop add.commute)
    then have "take 1024 (drop offset s) @ drop (offset + 1024) s = drop offset s"
      by (simp only: append_take_drop_id)
    then have "map ucast (take 1024 (drop offset s)) @ map ucast (drop (offset + 1024) s)
            = (map ucast (drop offset s) :: 8 word list)"
      by (simp only: flip: map_append)
    with True 1 show ?thesis
      by (simp add: byte_arrays.simps [of s offset] slice_def)
  next
    case False
    then show ?thesis by (simp add: byte_arrays.simps [of s offset])
  qed
qed

lemma ucast_byte_roundtrip: "(ucast (ucast (b :: 8 word) :: 16 word) :: 8 word) = b"
  by (rule bit_word_eqI) (simp add: bit_ucast_iff)

lemma comma_not_in_allowed: "mime \<in> set ALLOWED_TYPES \<Longrightarrow> 44 \<notin> set mime"
  by (auto simp: ALLOWED_TYPES_def lit_def)

lemma base64_part:
  assumes "44 \<notin> set mime"
  shows "index (split 44 (data_url mime bytes)) 1 = Some (base64_encode bytes)"
proof -
  have 1: "data_url mime bytes = (lit ''data:'' @ mime @ lit '';base64'') @ 44 # base64_encode bytes"
    by (simp add: data_url_def lit_def)
  have "44 \<notin> set (lit ''data:'' @ mime @ lit '';base64'')"
    using assms by (simp add: lit_def)
  then have "split 44 ((lit ''data:'' @ mime @ lit '';base64'') @ 44 # base64_encode bytes)
      = (lit ''data:'' @ mime @ lit '';base64'') # split 44 (base64_encode bytes)"
    by (rule split_append_sep)
  then have "split 44 (data_url mime bytes)
      = [lit ''data:'' @ mime @ lit '';base64'', base64_encode bytes]"
    by (simp only: 1 split_no_sep [OF encode_no_comma])
  then show ?thesis
    by (simp only: index_simps)
qed

lemma data_url_truthy: "string_truthy (Some (data_url mime bytes))"
  by (simp add: string_truthy_def data_url_def lit_def)

lemma handleAnalyze_data_url:
  assumes "44 \<notin> set mime"
  shows "handleAnalyze br (Some (data_url mime bytes)) =
     ([SetIsLoading True, SetError None, SetResult None, SetTimeout API_TIMEOUT,
       Fetch \<lparr>request_url = API_URL, request_method = lit ''POST'',
              request_body =
                [\<lparr>entry_name = lit ''file'',
                  entry_value = \<lparr>blob_bytes = bytes, blob_type = lit ''image/png''\<rparr>,
                  entry_filename = lit ''image.png''\<rparr>]\<rparr>],
      Some AwaitFetch)"
  using base64_part [OF assms, of bytes]
  by (simp add: handleAnalyze_def data_url_truthy atob_encode
        concat_byte_arrays ucast_byte_roundtrip comp_def)

subsection \<open>The shape of the handlers\<close>

lemma validateFile_nonempty: "validateFile f = Some m \<Longrightarrow> m \<noteq> []"
  by (auto simp: validateFile_def invalid_type_message_def too_large_message_def lit_def
           split: if_splits)

lemma string_truthy_validateFile: "string_truthy (validateFile f) \<longleftrightarrow> validateFile f \<noteq> None"
  by (cases "validateFile f") (auto simp: string_truthy_def dest: validateFile_nonempty)

lemma handleAnalyze_cases:
  "handleAnalyze br sel = ([], None)
   \<or> (\<exists>m. handleAnalyze br sel =
        ([SetIsLoading True, SetError None, SetResult None, SetError (Some m),
          SetResult (Some error_result), SetIsLoading False], None))
   \<or> (\<exists>req. handleAnalyze br sel =
        ([SetIsLoading True, SetError None, SetResult None, SetTimeout API_TIMEOUT, Fetch req],
         Some AwaitFetch))"
  by (simp add: handleAnalyze_def Let_def catch_block_def finally_block_def split: option.splits)

lemma after_fetch_cases:
  "(\<exists>m. after_fetch s = ([SetError (Some m), SetResult (Some error_result), SetIsLoading False], None))
   \<or> (\<exists>a. after_fetch s = ([ClearTimeout], Some a))"
  by (simp add: after_fetch_def catch_block_def finally_block_def split: sum.splits)

lemma after_fetch_Inl:
  "after_fetch (Inl e) =
     ([SetError (Some (case e of ErrorObject m \<Rightarrow> m | OtherValue \<Rightarrow> unknown_error_message)),
       SetResult (Some error_result), SetIsLoading False], None)"
  by (simp add: after_fetch_def catch_block_def finally_block_def)

lemma after_text_cases:
  "\<exists>m. after_text st s = [SetError (Some m), SetResult (Some error_result), SetIsLoading False]"
  by (simp add: after_text_def catch_block_def finally_block_def split: sum.splits)

lemma after_json_cases:
  "(\<exists>m. after_json s = [SetError (Some m), SetResult (Some error_result), SetIsLoading False])
   \<or> (\<exists>r. after_json s = [SetResult (Some r), SetIsLoading False])"
  by (simp add: after_json_def catch_block_def finally_block_def split: sum.splits option.splits)

subsection \<open>Invariants of the world\<close>

lemma ids_below_without: "ids_below n xs \<Longrightarrow> ids_below n (without i xs)"
  by (simp add: ids_below_def without_def list_all_iff)

lemma ids_below_Suc: "ids_below n xs \<Longrightarrow> ids_below (Suc n) xs"
  by (auto simp: ids_below_def list_all_iff)

lemma ids_below_map_of: "map_of xs i = Some a \<Longrightarrow> ids_below n xs \<Longrightarrow> i < n"
  by (auto simp: ids_below_def list_all_iff dest!: map_of_SomeD)

lemma ids_below_snoc: "ids_below n (xs @ [(i, a)]) \<longleftrightarrow> ids_below n xs \<and> i < n"
  by (auto simp: ids_below_def)

lemma fresh_ids_step:
  assumes "fresh_ids w" and "step br w e = Some w'"
  shows "fresh_ids w'"
proof (cases e)
  case (Tick n)
  with assms show ?thesis by (auto simp: fresh_ids_def)
next
  case (Change files)
  with assms show ?thesis
    by (auto simp: fresh_ids_def handleImageUpload_def Let_def ids_below_snoc ids_below_Suc
              split: option.splits if_splits)
next
  case (Drop files)
  with assms show ?thesis
    by (auto simp: fresh_ids_def handleDrop_def Let_def ids_below_snoc ids_below_Suc
              split: option.splits if_splits)
next
  case DragOver
  with assms show ?thesis by (auto simp: fresh_ids_def handleDragOver_def split: if_splits)
next
  case (ReaderDone i outcome)
  with assms show ?thesis
    by (cases outcome; cases "the (map_of (readers w) i)")
       (auto simp: fresh_ids_def onerror_def ids_below_without split: option.splits)
next
  case ClickAnalyze
  with assms show ?thesis
    using handleAnalyze_cases [of br "selectedImage (view w)"]
    by (auto simp: fresh_ids_def suspend_def ids_below_snoc ids_below_without ids_below_Suc
              split: if_splits)
next
  case (FetchSettled i s)
  with assms have "map_of (calls w) i = Some AwaitFetch"
    by (auto split: option.splits await.splits)
  with assms(1) have "i < next_id w"
    by (simp add: fresh_ids_def ids_below_map_of)
  with FetchSettled assms show ?thesis
    using after_fetch_cases [of s]
    by (auto simp: fresh_ids_def suspend_def ids_below_snoc ids_below_without ids_below_Suc
             split: option.splits await.splits)
next
  case (TextSettled i s)
  with assms obtain st where c: "map_of (calls w) i = Some (AwaitText st)"
    by (auto split: option.splits await.splits)
  obtain m where "after_text st s =
      [SetError (Some m), SetResult (Some error_result), SetIsLoading False]"
    using after_text_cases by blast
  with c TextSettled assms show ?thesis
    by (auto simp: fresh_ids_def suspend_def ids_below_without)
next
  case (JsonSettled i s)
  with assms have c: "map_of (calls w) i = Some AwaitJson"
    by (auto split: option.splits await.splits)
  with JsonSettled assms show ?thesis
    using after_json_cases [of s]
    by (auto simp: fresh_ids_def suspend_def ids_below_without)
next
  case (TimerFired i)
  with assms show ?thesis
    by (auto simp: fresh_ids_def suspend_def ids_below_without Let_def after_fetch_Inl
             split: option.splits await.splits if_splits)
qed

lemma calls_singleton:
  "length xs \<le> 1 \<Longrightarrow> map_of xs i = Some a \<Longrightarrow> xs = [(i, a)]"
  by (cases xs) (auto split: if_splits)

lemma one_call_step:
  assumes "one_call w" and "step br w e = Some w'"
  shows "one_call w'"
proof (cases e)
  case (Tick n)
  with assms show ?thesis by (auto simp: one_call_def)
next
  case (Change files)
  with assms show ?thesis
    by (auto simp: one_call_def handleImageUpload_def Let_def split: option.splits if_splits)
next
  case (Drop files)
  with assms show ?thesis
    by (auto simp: one_call_def handleDrop_def Let_def split: option.splits if_splits)
next
  case DragOver
  with assms show ?thesis by (auto simp: one_call_def handleDragOver_def split: if_splits)
next
  case (ReaderDone i outcome)
  with assms show ?thesis
    by (cases outcome; cases "the (map_of (readers w) i)")
       (auto simp: one_call_def onerror_def split: option.splits)
next
  case ClickAnalyze
  with assms have "\<not> isLoading (view w)" and "calls w = []"
    by (auto simp: one_call_def button_disabled_def split: if_splits)
  with ClickAnalyze assms show ?thesis
    using handleAnalyze_cases [of br "selectedImage (view w)"]
    by (auto simp: one_call_def suspend_def without_def split: if_splits)
next
  case (FetchSettled i s)
  with assms have "map_of (calls w) i = Some AwaitFetch"
    by (auto split: option.splits await.splits)
  with assms(1) have "calls w = [(i, AwaitFetch)]"
    by (simp add: one_call_def calls_singleton)
  with FetchSettled assms show ?thesis
    using after_fetch_cases [of s]
    by (auto simp: one_call_def suspend_def without_def)
next
  case (TextSettled i s)
  with assms obtain st where c: "map_of (calls w) i = Some (AwaitText st)"
    by (auto split: option.splits await.splits)
  with assms(1) have "calls w = [(i, AwaitText st)]"
    by (simp add: one_call_def calls_singleton)
  moreover obtain m where "after_text st s =
      [SetError (Some m), SetResult (Some error_result), SetIsLoading False]"
    using after_text_cases by blast
  ultimately show ?thesis
    using TextSettled assms by (auto simp: one_call_def suspend_def without_def)
next
  case (JsonSettled i s)
  with assms have c: "map_of (calls w) i = Some AwaitJson"
    by (auto split: option.splits await.splits)
  with assms(1) have "calls w = [(i, AwaitJson)]"
    by (simp add: one_call_def calls_singleton)
  with JsonSettled assms show ?thesis
    using after_json_cases [of s]
    by (auto simp: one_call_def suspend_def without_def)
next
  case (TimerFired i)
  show ?thesis
  proof (cases "map_of (calls w) i = Some AwaitFetch")
    case True
    with assms(1) have "calls w = [(i, AwaitFetch)]"
      by (simp add: one_call_def calls_singleton)
    with TimerFired assms show ?thesis
      by (auto simp: one_call_def suspend_def without_def Let_def after_fetch_Inl
               split: option.splits if_splits)
  next
    case False
    with TimerFired assms show ?thesis
      by (auto simp: one_call_def Let_def split: option.splits await.splits if_splits)
  qed
qed

lemma run_invariant:
  "fresh_ids w \<and> one_call w \<Longrightarrow> run br w es = Some w' \<Longrightarrow> fresh_ids w' \<and> one_call w'"
proof (induction es arbitrary: w)
  case Nil
  then show ?case by simp
next
  case (Cons e es)
  then show ?case
    by (auto split: option.splits dest: fresh_ids_step one_call_step)
qed

lemma initial_world_invariant: "fresh_ids initial_world \<and> one_call initial_world"
  by (simp add: fresh_ids_def one_call_def ids_below_def initial_world_def initial_state_def)

subsection \<open>Lookups\<close>

lemma map_of_without: "map_of (without i xs) i = None"
  by (induction xs) (auto simp: without_def)

lemma map_of_without_snoc: "map_of (without i xs @ [(i, a)]) i = Some a"
  by (induction xs) (auto simp: without_def)

lemma map_of_fresh_snoc: "ids_below n xs \<Longrightarrow> map_of (xs @ [(n, a)]) n = Some a"
  by (induction xs) (auto simp: ids_below_def)

lemma get_property_truthy: "get_property data k = Some v \<Longrightarrow> truthy data"
  by (cases data) simp_all

lemma click_enabled:
  "(\<exists>w'. step br w ClickAnalyze = Some w') \<longleftrightarrow>
     string_truthy (selectedImage (view w)) \<and> \<not> isLoading (view w)"
  by (cases "handleAnalyze br (selectedImage (view w))") (simp add: button_disabled_def)


subsection \<open>Concrete runs\<close>

lemma validateFile_samples:
  "validateFile xray_jpg = None" "validateFile scan_png = None"
  "validateFile notes_gif = Some invalid_type_message"
  by (simp_all add: validateFile_def set_ALLOWED_TYPES MAX_FILE_SIZE_def lit_def
        xray_jpg_def scan_png_def notes_gif_def)

lemma string_truthy_simps:
  "string_truthy None = False" "string_truthy (Some invalid_type_message) = True"
  "string_truthy (Some too_large_message) = True"
  "string_truthy (Some xray_jpg_url) = True"
  by (simp_all add: string_truthy_def invalid_type_message_def too_large_message_def lit_def
        xray_jpg_url_def data_url_truthy [unfolded string_truthy_def, simplified])

lemmas world_simps =
  initial_world_def initial_state_def handleImageUpload_def handleDrop_def handleDragOver_def
  index_simps validateFile_samples string_truthy_simps without_def onerror_def suspend_def
  drop_zone_rendered_def button_disabled_def intake_def

lemma handleAnalyze_xray_jpg:
  "handleAnalyze br (Some xray_jpg_url) =
     ([SetIsLoading True, SetError None, SetResult None, SetTimeout API_TIMEOUT,
       Fetch \<lparr>request_url = API_URL, request_method = lit ''POST'',
              request_body =
                [\<lparr>entry_name = lit ''file'',
                  entry_value = \<lparr>blob_bytes = [0xFF, 0xD8, 0xFF, 0xE0],
                                 blob_type = lit ''image/png''\<rparr>,
                  entry_filename = lit ''image.png''\<rparr>]\<rparr>],
      Some AwaitFetch)"
  unfolding xray_jpg_url_def
  by (rule handleAnalyze_data_url) (simp add: lit_def)

lemma reading_world_reached: "run firefox initial_world [Change [xray_jpg]] = Some reading_world"
  by (simp add: world_simps reading_world_def)

lemma selected_world_reached:
  "run firefox initial_world [Change [xray_jpg], ReaderDone 0 (Loaded xray_jpg_url)]
     = Some selected_world"
  by (simp add: world_simps selected_world_def)

lemma selected_world_click: "step firefox selected_world ClickAnalyze = Some fetching_world"
  by (simp add: world_simps handleAnalyze_xray_jpg fetching_world_def selected_world_def
        API_TIMEOUT_def)

lemma fetching_world_reached:
  "run firefox initial_world [Change [xray_jpg], ReaderDone 0 (Loaded xray_jpg_url), ClickAnalyze]
     = Some fetching_world"
  by (simp add: world_simps handleAnalyze_xray_jpg fetching_world_def API_TIMEOUT_def)

lemma parsing_world_reached:
  "step firefox fetching_world (FetchSettled 1 (Inr 200)) = Some parsing_world"
  by (simp add: fetching_world_def parsing_world_def after_fetch_def response_ok_def
        suspend_def without_def)

lemma shown_world_reached:
  "run firefox initial_world
     [Change [xray_jpg], ReaderDone 0 (Loaded xray_jpg_url), ClickAnalyze,
      FetchSettled 1 (Inr 200),
      JsonSettled 1
        (Inr (JObject [(lit ''predicao'', JString (lit ''Tuberculose'')),
                       (lit ''probabilidade'', JNumber (round_binary64 (87 / 100)))]))]
     = Some shown_world"
  by (simp add: world_simps handleAnalyze_xray_jpg after_fetch_def after_json_def
        finally_block_def response_ok_def shown_world_def parsing_world_def fetching_world_def
        API_TIMEOUT_def,
      simp add: lit_def)

lemma rejected_world_reached: "run firefox initial_world [Change [notes_gif]] = Some rejected_world"
  by (simp add: world_simps rejected_world_def)

lemma decimal_500: "decimal 500 = lit ''500''"
  by (simp add: decimal.simps lit_def)


section \<open>C1: the file validator\<close>

text \<open>
  C1. \<open>validateFile\<close> returns the invalid-type message exactly when the declared type
  is none of image/jpeg, image/png, image/jpg, image/webp; otherwise the
  file-too-large message exactly when the size exceeds 10,485,760 bytes; otherwise
  no error. The type check comes first, the two messages differ, and the answer
  depends on the declared type and the size only. The function returns a value and
  performs no effect.
\<close>

theorem validateFile_contract:
  "validateFile f =
     (if file_type f \<notin> {lit ''image/jpeg'', lit ''image/png'', lit ''image/jpg'', lit ''image/webp''}
      then Some invalid_type_message
      else if 10485760 < file_size f then Some too_large_message
      else None)
   \<and> invalid_type_message \<noteq> too_large_message
   \<and> (file_type g = file_type f \<and> file_size g = file_size f
        \<longrightarrow> validateFile g = validateFile f)"
  by (simp add: validateFile_def set_ALLOWED_TYPES MAX_FILE_SIZE_def messages_differ)

text \<open>
  A GIF of 20,000,000 bytes fails both checks and gets the invalid-type message, under
  either of two names.
\<close>

theorem validateFile_contract_witness:
  "validateFile \<lparr>file_name = lit ''a.gif'', file_type = lit ''image/gif'', file_size = 20000000\<rparr>
     = Some invalid_type_message
   \<and> file_type \<lparr>file_name = lit ''b.gif'', file_type = lit ''image/gif'', file_size = 20000000\<rparr>
     = file_type \<lparr>file_name = lit ''a.gif'', file_type = lit ''image/gif'', file_size = 20000000\<rparr>
   \<and> file_size \<lparr>file_name = lit ''b.gif'', file_type = lit ''image/gif'', file_size = 20000000\<rparr>
     = file_size \<lparr>file_name = lit ''a.gif'', file_type = lit ''image/gif'', file_size = 20000000\<rparr>
   \<and> validateFile \<lparr>file_name = lit ''b.gif'', file_type = lit ''image/gif'', file_size = 20000000\<rparr>
     = validateFile \<lparr>file_name = lit ''a.gif'', file_type = lit ''image/gif'', file_size = 20000000\<rparr>"
  using validateFile_contract
    [of "\<lparr>file_name = lit ''a.gif'', file_type = lit ''image/gif'', file_size = 20000000\<rparr>"
        "\<lparr>file_name = lit ''b.gif'', file_type = lit ''image/gif'', file_size = 20000000\<rparr>"]
  by (simp add: lit_def)

section \<open>C2: a failed analysis\<close>

text \<open>
  C2. Whatever else has happened while the fetch of a call was pending, each failure
  of the request ends the call with the failure's message in \<open>error\<close>, the sentinel
  \<open>error_result\<close> (label \<open>error_label\<close>, confidence 0) in \<open>result\<close>, and the
  loading flag cleared: a rejected fetch (network error), the abort by the timer, a
  rejected \<^verbatim>\<open>response.json()\<close> (parse failure), a parsed body that is falsy or lacks
  one of the two properties, and a status outside 200 to 299, whose message is
  \<^verbatim>\<open>Erro do servidor (<status>): <body text>\<close>.
\<close>

theorem analysis_failure:
  "(map_of (calls w) i = Some AwaitFetch \<longrightarrow>
      failed_with m (run br w [FetchSettled i (Inl (ErrorObject m))])
      \<and> (map_of (timers w) i = Some d \<and> d \<le> now w \<longrightarrow>
           failed_with (abort_message br) (run br w [TimerFired i]))
      \<and> (response_ok status \<longrightarrow>
           failed_with m
             (run br w [FetchSettled i (Inr status), JsonSettled i (Inl (ErrorObject m))])
           \<and> (\<not> truthy data \<or> get_property data (lit ''predicao'') = None
                \<or> get_property data (lit ''probabilidade'') = None \<longrightarrow>
                failed_with invalid_response_message
                  (run br w [FetchSettled i (Inr status), JsonSettled i (Inr data)])))
      \<and> (\<not> response_ok status \<longrightarrow>
           failed_with (lit ''Erro do servidor ('' @ decimal status @ lit ''): '' @ body)
             (run br w [FetchSettled i (Inr status), TextSettled i (Inr body)])
           \<and> failed_with m
               (run br w [FetchSettled i (Inr status), TextSettled i (Inl (ErrorObject m))])))
   \<and> error_result =
       \<lparr>predicao = JString (lit (''Erro na An'' @ [CHR 0xE1] @ ''lise'')),
        probabilidade = JNumber (Finite 0)\<rparr>"
proof (intro conjI impI)
  show "error_result =
       \<lparr>predicao = JString (lit (''Erro na An'' @ [CHR 0xE1] @ ''lise'')),
        probabilidade = JNumber (Finite 0)\<rparr>"
    by (simp add: error_result_def error_label_def)
next
  assume c: "map_of (calls w) i = Some AwaitFetch"
  then show "failed_with m (run br w [FetchSettled i (Inl (ErrorObject m))])"
    by (simp add: failed_with_def after_fetch_Inl suspend_def)
  {
    assume "map_of (timers w) i = Some d \<and> d \<le> now w"
    with c show "failed_with (abort_message br) (run br w [TimerFired i])"
      by (simp add: failed_with_def after_fetch_Inl suspend_def)
  }
  {
    assume ok: "response_ok status"
    with c show "failed_with m
        (run br w [FetchSettled i (Inr status), JsonSettled i (Inl (ErrorObject m))])"
      by (simp add: failed_with_def after_fetch_def after_json_def catch_block_def
            finally_block_def suspend_def map_of_without_snoc del: map_of_append)
    assume "\<not> truthy data \<or> get_property data (lit ''predicao'') = None
                \<or> get_property data (lit ''probabilidade'') = None"
    with c ok show "failed_with invalid_response_message
        (run br w [FetchSettled i (Inr status), JsonSettled i (Inr data)])"
      by (auto simp: failed_with_def after_fetch_def after_json_def catch_block_def
            finally_block_def suspend_def map_of_without_snoc simp del: map_of_append
            split: option.splits)
  }
  {
    assume "\<not> response_ok status"
    with c show "failed_with (lit ''Erro do servidor ('' @ decimal status @ lit ''): '' @ body)
             (run br w [FetchSettled i (Inr status), TextSettled i (Inr body)])"
      and "failed_with m
               (run br w [FetchSettled i (Inr status), TextSettled i (Inl (ErrorObject m))])"
      by (simp_all add: failed_with_def after_fetch_def after_text_def catch_block_def
            finally_block_def suspend_def map_of_without_snoc del: map_of_append)
  }
qed

text \<open>
  The five failures on the pending fetch of the sample session; the status 500 with
  the body "internal error" gives "Erro do servidor (500): internal error".
\<close>

theorem analysis_failure_witness:
  "map_of (calls fetching_world) 1 = Some AwaitFetch
   \<and> failed_with (lit ''NetworkError when attempting to fetch resource.'')
        (run firefox fetching_world
           [FetchSettled 1 (Inl (ErrorObject (lit ''NetworkError when attempting to fetch resource.'')))])
   \<and> map_of (calls (fetching_world\<lparr>now := 300000\<rparr>)) 1 = Some AwaitFetch
   \<and> map_of (timers (fetching_world\<lparr>now := 300000\<rparr>)) 1 = Some 300000
   \<and> 300000 \<le> now (fetching_world\<lparr>now := 300000\<rparr>)
   \<and> failed_with (lit ''The operation was aborted. '')
        (run firefox (fetching_world\<lparr>now := 300000\<rparr>) [TimerFired 1])
   \<and> response_ok 200
   \<and> failed_with (lit ''JSON.parse: unexpected character at line 1 column 1 of the JSON data'')
        (run firefox fetching_world
           [FetchSettled 1 (Inr 200),
            JsonSettled 1 (Inl (ErrorObject
              (lit ''JSON.parse: unexpected character at line 1 column 1 of the JSON data'')))])
   \<and> get_property (JObject [(lit ''predicao'', JString (lit ''Tuberculose''))])
        (lit ''probabilidade'') = None
   \<and> failed_with invalid_response_message
        (run firefox fetching_world
           [FetchSettled 1 (Inr 200),
            JsonSettled 1 (Inr (JObject [(lit ''predicao'', JString (lit ''Tuberculose''))]))])
   \<and> \<not> response_ok 500
   \<and> failed_with (lit ''Erro do servidor (500): internal error'')
        (run firefox fetching_world
           [FetchSettled 1 (Inr 500), TextSettled 1 (Inr (lit ''internal error''))])"
proof -
  have h: "map_of (calls fetching_world) 1 = Some AwaitFetch"
    "map_of (calls (fetching_world\<lparr>now := 300000\<rparr>)) 1 = Some AwaitFetch"
    "map_of (timers (fetching_world\<lparr>now := 300000\<rparr>)) 1 = Some 300000"
    "300000 \<le> now (fetching_world\<lparr>now := 300000\<rparr>)"
    "response_ok 200" "\<not> response_ok 500"
    "get_property (JObject [(lit ''predicao'', JString (lit ''Tuberculose''))])
        (lit ''probabilidade'') = None"
    "abort_message firefox = lit ''The operation was aborted. ''"
    "lit ''Erro do servidor ('' @ decimal 500 @ lit ''): '' @ lit ''internal error''
       = lit ''Erro do servidor (500): internal error''"
    by (simp_all add: fetching_world_def response_ok_def firefox_def decimal_500, simp_all add: lit_def)
  show ?thesis
    using h
      analysis_failure [where br = firefox and w = fetching_world and i = 1
        and m = "lit ''NetworkError when attempting to fetch resource.''"]
      analysis_failure [where br = firefox and w = "fetching_world\<lparr>now := 300000\<rparr>" and i = 1
        and d = 300000]
      analysis_failure [where br = firefox and w = fetching_world and i = 1 and status = 200
        and m = "lit ''JSON.parse: unexpected character at line 1 column 1 of the JSON data''"
        and data = "JObject [(lit ''predicao'', JString (lit ''Tuberculose''))]"]
      analysis_failure [where br = firefox and w = fetching_world and i = 1 and status = 500
        and body = "lit ''internal error''"]
    by simp
qed

section \<open>C3: a successful analysis\<close>



section \<open>C4: the check of the response\<close>

text \<open>
  C4 claims that a body that is not valid JSON fails with the invalid-server-response
  error. In the sample session the response has status 200 and \<^verbatim>\<open>response.json()\<close>
  rejects: the message shown is the parser's own, not \<open>invalid_response_message\<close>.
\<close>

theorem response_check_counterexample:
  "run firefox initial_world
     [Change [xray_jpg], ReaderDone 0 (Loaded xray_jpg_url), ClickAnalyze,
      FetchSettled 1 (Inr 200)] = Some parsing_world
   \<and> step firefox parsing_world
        (JsonSettled 1 (Inl (ErrorObject
           (lit ''JSON.parse: unexpected character at line 1 column 1 of the JSON data''))))
     = Some (parsing_world
              \<lparr>view :=
                 \<lparr>selectedImage = Some xray_jpg_url, result = Some error_result,
                  isLoading = False,
                  error = Some
                    (lit ''JSON.parse: unexpected character at line 1 column 1 of the JSON data'')\<rparr>,
               calls := []\<rparr>)
   \<and> lit ''JSON.parse: unexpected character at line 1 column 1 of the JSON data''
       \<noteq> invalid_response_message"
  by (simp add: world_simps handleAnalyze_xray_jpg after_fetch_def after_json_def
        catch_block_def finally_block_def response_ok_def invalid_response_message_def
        parsing_world_def fetching_world_def API_TIMEOUT_def,
      simp add: lit_def)

text \<open>
  C4, as amended. A response with a status from 200 to 299 makes the call await the
  parsed body. If the parsing is rejected, the analysis fails with the message of the
  rejection. If the parsed value is falsy or lacks the property \<^verbatim>\<open>predicao\<close> or
  \<^verbatim>\<open>probabilidade\<close>, it fails with \<open>invalid_response_message\<close>. A body with a
  string \<^verbatim>\<open>predicao\<close> and a number \<^verbatim>\<open>probabilidade\<close> is accepted: the pair is stored
  in \<open>result\<close>, \<open>error\<close> is left as it is, the loading flag is cleared and the result
  card renders.
\<close>

theorem response_check:
  "(map_of (calls w) i = Some AwaitFetch \<and> response_ok status \<longrightarrow>
      (\<exists>w'. step br w (FetchSettled i (Inr status)) = Some w'
         \<and> map_of (calls w') i = Some AwaitJson))
   \<and> (map_of (calls w) i = Some AwaitJson \<longrightarrow>
        failed_with m (step br w (JsonSettled i (Inl (ErrorObject m))))
        \<and> (\<not> truthy data \<or> get_property data (lit ''predicao'') = None
             \<or> get_property data (lit ''probabilidade'') = None \<longrightarrow>
             failed_with invalid_response_message (step br w (JsonSettled i (Inr data))))
        \<and> (get_property data (lit ''predicao'') = Some (JString l)
             \<and> get_property data (lit ''probabilidade'') = Some (JNumber p) \<longrightarrow>
             (\<exists>w'. step br w (JsonSettled i (Inr data)) = Some w'
                \<and> result (view w') = Some \<lparr>predicao = JString l, probabilidade = JNumber p\<rparr>
                \<and> error (view w') = error (view w) \<and> \<not> isLoading (view w')
                \<and> renders (view w'))))"
proof (intro conjI impI)
  assume "map_of (calls w) i = Some AwaitFetch \<and> response_ok status"
  then show "\<exists>w'. step br w (FetchSettled i (Inr status)) = Some w'
         \<and> map_of (calls w') i = Some AwaitJson"
    by (simp add: after_fetch_def suspend_def map_of_without_snoc del: map_of_append)
next
  assume c: "map_of (calls w) i = Some AwaitJson"
  then show "failed_with m (step br w (JsonSettled i (Inl (ErrorObject m))))"
    by (simp add: failed_with_def after_json_def catch_block_def finally_block_def suspend_def)
  {
    assume "\<not> truthy data \<or> get_property data (lit ''predicao'') = None
             \<or> get_property data (lit ''probabilidade'') = None"
    with c show "failed_with invalid_response_message (step br w (JsonSettled i (Inr data)))"
      by (auto simp: failed_with_def after_json_def catch_block_def finally_block_def
            suspend_def split: option.splits)
  }
  {
    assume a: "get_property data (lit ''predicao'') = Some (JString l)
             \<and> get_property data (lit ''probabilidade'') = Some (JNumber p)"
    then have "truthy data" by (auto dest: get_property_truthy)
    with a c show "\<exists>w'. step br w (JsonSettled i (Inr data)) = Some w'
                \<and> result (view w') = Some \<lparr>predicao = JString l, probabilidade = JNumber p\<rparr>
                \<and> error (view w') = error (view w) \<and> \<not> isLoading (view w')
                \<and> renders (view w')"
      by (simp add: after_json_def finally_block_def suspend_def renders_def)
  }
qed

text \<open>
  On the sample session: status 200, a rejected parse, the body \<^verbatim>\<open>null\<close>, and the
  body \<^verbatim>\<open>{"predicao":"Tuberculose","probabilidade":0.87}\<close>.
\<close>

theorem response_check_witness:
  "map_of (calls fetching_world) 1 = Some AwaitFetch \<and> response_ok 200
   \<and> step firefox fetching_world (FetchSettled 1 (Inr 200)) = Some parsing_world
   \<and> map_of (calls parsing_world) 1 = Some AwaitJson
   \<and> failed_with (lit ''JSON.parse: unexpected end of data at line 1 column 1 of the JSON data'')
        (step firefox parsing_world
           (JsonSettled 1 (Inl (ErrorObject
              (lit ''JSON.parse: unexpected end of data at line 1 column 1 of the JSON data'')))))
   \<and> \<not> truthy JNull
   \<and> failed_with invalid_response_message (step firefox parsing_world (JsonSettled 1 (Inr JNull)))
   \<and> get_property
        (JObject [(lit ''predicao'', JString (lit ''Tuberculose'')),
                  (lit ''probabilidade'', JNumber (round_binary64 (87 / 100)))])
        (lit ''predicao'') = Some (JString (lit ''Tuberculose''))
   \<and> get_property
        (JObject [(lit ''predicao'', JString (lit ''Tuberculose'')),
                  (lit ''probabilidade'', JNumber (round_binary64 (87 / 100)))])
        (lit ''probabilidade'') = Some (JNumber (round_binary64 (87 / 100)))
   \<and> (\<exists>w'. step firefox parsing_world
               (JsonSettled 1
                  (Inr (JObject [(lit ''predicao'', JString (lit ''Tuberculose'')),
                                 (lit ''probabilidade'', JNumber (round_binary64 (87 / 100)))])))
              = Some w'
         \<and> result (view w') =
              Some \<lparr>predicao = JString (lit ''Tuberculose''),
                    probabilidade = JNumber (round_binary64 (87 / 100))\<rparr>
         \<and> error (view w') = None \<and> \<not> isLoading (view w') \<and> renders (view w'))"
proof -
  have h: "map_of (calls fetching_world) 1 = Some AwaitFetch" "response_ok 200"
    "map_of (calls parsing_world) 1 = Some AwaitJson" "\<not> truthy JNull"
    "get_property
        (JObject [(lit ''predicao'', JString (lit ''Tuberculose'')),
                  (lit ''probabilidade'', JNumber (round_binary64 (87 / 100)))])
        (lit ''predicao'') = Some (JString (lit ''Tuberculose''))"
    "get_property
        (JObject [(lit ''predicao'', JString (lit ''Tuberculose'')),
                  (lit ''probabilidade'', JNumber (round_binary64 (87 / 100)))])
        (lit ''probabilidade'') = Some (JNumber (round_binary64 (87 / 100)))"
    "error (view parsing_world) = None"
    by (simp_all add: fetching_world_def parsing_world_def response_ok_def lit_def)
  have 1: "\<exists>w'. step firefox fetching_world (FetchSettled 1 (Inr 200)) = Some w'
             \<and> map_of (calls w') 1 = Some AwaitJson"
    using h response_check [where br = firefox and w = fetching_world and i = 1
        and status = 200 and m = "[]" and data = JNull and l = "[]" and p = NaN]
    by blast
  have 2: "failed_with (lit ''JSON.parse: unexpected end of data at line 1 column 1 of the JSON data'')
        (step firefox parsing_world
           (JsonSettled 1 (Inl (ErrorObject
              (lit ''JSON.parse: unexpected end of data at line 1 column 1 of the JSON data'')))))"
    and 3: "failed_with invalid_response_message
        (step firefox parsing_world (JsonSettled 1 (Inr JNull)))"
    using h response_check [where br = firefox and w = parsing_world and i = 1
        and status = 200 and data = JNull and l = "[]" and p = NaN
        and m = "lit ''JSON.parse: unexpected end of data at line 1 column 1 of the JSON data''"]
    by blast+
  have 4: "\<exists>w'. step firefox parsing_world
               (JsonSettled 1
                  (Inr (JObject [(lit ''predicao'', JString (lit ''Tuberculose'')),
                                 (lit ''probabilidade'', JNumber (round_binary64 (87 / 100)))])))
              = Some w'
         \<and> result (view w') =
              Some \<lparr>predicao = JString (lit ''Tuberculose''),
                    probabilidade = JNumber (round_binary64 (87 / 100))\<rparr>
         \<and> error (view w') = error (view parsing_world) \<and> \<not> isLoading (view w')
         \<and> renders (view w')"
    using h response_check [where br = firefox and w = parsing_world and i = 1
        and status = 200 and m = "[]"
        and data = "JObject [(lit ''predicao'', JString (lit ''Tuberculose'')),
                  (lit ''probabilidade'', JNumber (round_binary64 (87 / 100)))]"
        and l = "lit ''Tuberculose''" and p = "round_binary64 (87 / 100)"]
    by blast
  from h 1 2 3 4 parsing_world_reached show ?thesis by simp
qed

section \<open>C5: the payload on the wire\<close>

text \<open>
  C5. For a selected image that is the data URL of the bytes \<open>bytes\<close> under any of the
  allowed declared types, \<open>handleAnalyze\<close> hands to \<^verbatim>\<open>fetch\<close> a POST to \<open>API_URL\<close>
  whose form has the single field "file", with the file name "image.png" and a blob of
  type image/png holding exactly \<open>bytes\<close>: the bytes are relabelled, not transcoded.
  Every request \<open>handleAnalyze\<close> issues, for any selected string, has this field, file
  name and type.
\<close>

theorem wire_payload:
  "(mime \<in> set ALLOWED_TYPES \<longrightarrow>
      handleAnalyze br (Some (data_url mime bytes)) =
        ([SetIsLoading True, SetError None, SetResult None, SetTimeout API_TIMEOUT,
          Fetch \<lparr>request_url = API_URL, request_method = lit ''POST'',
                 request_body =
                   [\<lparr>entry_name = lit ''file'',
                     entry_value = \<lparr>blob_bytes = bytes, blob_type = lit ''image/png''\<rparr>,
                     entry_filename = lit ''image.png''\<rparr>]\<rparr>],
         Some AwaitFetch)
      \<and> (selectedImage (view w) = Some (data_url mime bytes) \<and> \<not> isLoading (view w) \<longrightarrow>
           (\<exists>w'. step br w ClickAnalyze = Some w'
              \<and> sent w' = sent w @
                   [(next_id w,
                     \<lparr>request_url = API_URL, request_method = lit ''POST'',
                      request_body =
                        [\<lparr>entry_name = lit ''file'',
                          entry_value = \<lparr>blob_bytes = bytes, blob_type = lit ''image/png''\<rparr>,
                          entry_filename = lit ''image.png''\<rparr>]\<rparr>)])))
   \<and> (Fetch req \<in> set (fst (handleAnalyze br sel)) \<longrightarrow>
        request_url req = API_URL \<and> request_method req = lit ''POST''
        \<and> (\<exists>bs. request_body req =
              [\<lparr>entry_name = lit ''file'',
                entry_value = \<lparr>blob_bytes = bs, blob_type = lit ''image/png''\<rparr>,
                entry_filename = lit ''image.png''\<rparr>]))"
proof (intro conjI impI)
  assume "mime \<in> set ALLOWED_TYPES"
  then have c: "44 \<notin> set mime" by (rule comma_not_in_allowed)
  then show h: "handleAnalyze br (Some (data_url mime bytes)) =
        ([SetIsLoading True, SetError None, SetResult None, SetTimeout API_TIMEOUT,
          Fetch \<lparr>request_url = API_URL, request_method = lit ''POST'',
                 request_body =
                   [\<lparr>entry_name = lit ''file'',
                     entry_value = \<lparr>blob_bytes = bytes, blob_type = lit ''image/png''\<rparr>,
                     entry_filename = lit ''image.png''\<rparr>]\<rparr>],
         Some AwaitFetch)"
    by (rule handleAnalyze_data_url)
  assume "selectedImage (view w) = Some (data_url mime bytes) \<and> \<not> isLoading (view w)"
  with h show "\<exists>w'. step br w ClickAnalyze = Some w'
              \<and> sent w' = sent w @
                   [(next_id w,
                     \<lparr>request_url = API_URL, request_method = lit ''POST'',
                      request_body =
                        [\<lparr>entry_name = lit ''file'',
                          entry_value = \<lparr>blob_bytes = bytes, blob_type = lit ''image/png''\<rparr>,
                          entry_filename = lit ''image.png''\<rparr>]\<rparr>)]"
    by (simp add: button_disabled_def data_url_truthy suspend_def)
next
  assume a: "Fetch req \<in> set (fst (handleAnalyze br sel))"
  then show "request_url req = API_URL" "request_method req = lit ''POST''"
    "\<exists>bs. request_body req =
              [\<lparr>entry_name = lit ''file'',
                entry_value = \<lparr>blob_bytes = bs, blob_type = lit ''image/png''\<rparr>,
                entry_filename = lit ''image.png''\<rparr>]"
    by (auto simp: handleAnalyze_def Let_def catch_block_def finally_block_def
             split: if_splits option.splits)
qed

text \<open>The four bytes of the sample JPEG go out as image/png.\<close>

theorem wire_payload_witness:
  "lit ''image/jpeg'' \<in> set ALLOWED_TYPES
   \<and> selectedImage (view (initial_world\<lparr>view := initial_state\<lparr>selectedImage := Some xray_jpg_url\<rparr>\<rparr>))
       = Some (data_url (lit ''image/jpeg'') [0xFF, 0xD8, 0xFF, 0xE0])
   \<and> \<not> isLoading (view (initial_world\<lparr>view := initial_state\<lparr>selectedImage := Some xray_jpg_url\<rparr>\<rparr>))
   \<and> Fetch \<lparr>request_url = API_URL, request_method = lit ''POST'',
             request_body =
               [\<lparr>entry_name = lit ''file'',
                 entry_value = \<lparr>blob_bytes = [0xFF, 0xD8, 0xFF, 0xE0], blob_type = lit ''image/png''\<rparr>,
                 entry_filename = lit ''image.png''\<rparr>]\<rparr>
       \<in> set (fst (handleAnalyze firefox (Some (data_url (lit ''image/jpeg'') [0xFF, 0xD8, 0xFF, 0xE0]))))
   \<and> (\<exists>w'. step firefox (initial_world\<lparr>view := initial_state\<lparr>selectedImage := Some xray_jpg_url\<rparr>\<rparr>)
              ClickAnalyze = Some w'
         \<and> sent w' =
              [(0, \<lparr>request_url = API_URL, request_method = lit ''POST'',
                    request_body =
                      [\<lparr>entry_name = lit ''file'',
                        entry_value = \<lparr>blob_bytes = [0xFF, 0xD8, 0xFF, 0xE0],
                                       blob_type = lit ''image/png''\<rparr>,
                        entry_filename = lit ''image.png''\<rparr>]\<rparr>)])"
proof -
  have h: "lit ''image/jpeg'' \<in> set ALLOWED_TYPES"
    by (simp add: set_ALLOWED_TYPES)
  show ?thesis
    using h wire_payload [where mime = "lit ''image/jpeg''" and bytes = "[0xFF, 0xD8, 0xFF, 0xE0]"
        and br = firefox
        and w = "initial_world\<lparr>view := initial_state\<lparr>selectedImage := Some xray_jpg_url\<rparr>\<rparr>"]
    by (simp add: initial_world_def initial_state_def xray_jpg_url_def)
qed

section \<open>C6: the timeout\<close>

text \<open>
  What the timer does. \<open>API_TIMEOUT\<close> is 300,000 ms. A click that issues a fetch arms,
  for that call, a timer whose deadline is 300,000 ms after the click. The timer cannot
  fire before its deadline. When it fires while the fetch is still pending, the fetch
  is aborted and the call takes the failure path: \<open>error\<close> is the message of the
  abort, \<open>result\<close> is the sentinel, the loading flag is cleared and the call is over.
  A response that arrives first clears the timer (line 82), before its body is read.
\<close>

theorem request_timeout:
  "API_TIMEOUT = 300000
   \<and> (step br w ClickAnalyze = Some w'
        \<and> snd (handleAnalyze br (selectedImage (view w))) = Some AwaitFetch \<longrightarrow>
        timers w' = timers w @ [(next_id w, now w + 300000)]
        \<and> map_of (calls w') (next_id w) = Some AwaitFetch)
   \<and> (map_of (timers w) i = Some d \<and> now w < d \<longrightarrow> step br w (TimerFired i) = None)
   \<and> (map_of (timers w) i = Some d \<and> d \<le> now w \<and> map_of (calls w) i = Some AwaitFetch \<longrightarrow>
        failed_with (abort_message br) (step br w (TimerFired i))
        \<and> (\<exists>w'. step br w (TimerFired i) = Some w' \<and> map_of (calls w') i = None))
   \<and> (map_of (calls w) i = Some AwaitFetch \<longrightarrow>
        (\<exists>w'. step br w (FetchSettled i (Inr status)) = Some w' \<and> map_of (timers w') i = None))"
proof (intro conjI impI)
  show "API_TIMEOUT = 300000" by (simp add: API_TIMEOUT_def)
next
  assume a: "step br w ClickAnalyze = Some w'
        \<and> snd (handleAnalyze br (selectedImage (view w))) = Some AwaitFetch"
  then obtain req where "handleAnalyze br (selectedImage (view w)) =
        ([SetIsLoading True, SetError None, SetResult None, SetTimeout API_TIMEOUT, Fetch req],
         Some AwaitFetch)"
    using handleAnalyze_cases [of br "selectedImage (view w)"] by auto
  with a show "timers w' = timers w @ [(next_id w, now w + 300000)]"
    and "map_of (calls w') (next_id w) = Some AwaitFetch"
    by (auto simp: suspend_def API_TIMEOUT_def map_of_without_snoc simp del: map_of_append
             split: if_splits)
next
  assume "map_of (timers w) i = Some d \<and> now w < d"
  then show "step br w (TimerFired i) = None" by simp
next
  assume a: "map_of (timers w) i = Some d \<and> d \<le> now w \<and> map_of (calls w) i = Some AwaitFetch"
  then show "failed_with (abort_message br) (step br w (TimerFired i))"
    by (simp add: failed_with_def after_fetch_Inl suspend_def)
  from a show "\<exists>w'. step br w (TimerFired i) = Some w' \<and> map_of (calls w') i = None"
    by (simp add: after_fetch_Inl suspend_def map_of_without)
next
  assume "map_of (calls w) i = Some AwaitFetch"
  then show "\<exists>w'. step br w (FetchSettled i (Inr status)) = Some w' \<and> map_of (timers w') i = None"
    by (simp add: after_fetch_def suspend_def map_of_without)
qed

text \<open>
  The sample session: the click at time 0 arms the timer for 300,000; at time 0 it
  cannot fire; at time 300,000 it aborts the pending fetch.
\<close>

theorem request_timeout_witness:
  "step firefox selected_world ClickAnalyze = Some fetching_world
   \<and> snd (handleAnalyze firefox (selectedImage (view selected_world))) = Some AwaitFetch
   \<and> timers fetching_world = timers selected_world @ [(next_id selected_world, now selected_world + 300000)]
   \<and> map_of (timers fetching_world) 1 = Some 300000
   \<and> now fetching_world < 300000
   \<and> step firefox fetching_world (TimerFired 1) = None
   \<and> map_of (timers (fetching_world\<lparr>now := 300000\<rparr>)) 1 = Some 300000
   \<and> 300000 \<le> now (fetching_world\<lparr>now := 300000\<rparr>)
   \<and> map_of (calls (fetching_world\<lparr>now := 300000\<rparr>)) 1 = Some AwaitFetch
   \<and> failed_with (abort_message firefox)
        (step firefox (fetching_world\<lparr>now := 300000\<rparr>) (TimerFired 1))
   \<and> (\<exists>w'. step firefox fetching_world (FetchSettled 1 (Inr 200)) = Some w'
         \<and> map_of (timers w') 1 = None)"
proof -
  have h: "snd (handleAnalyze firefox (selectedImage (view selected_world))) = Some AwaitFetch"
    "map_of (timers fetching_world) 1 = Some 300000"
    "now fetching_world < 300000"
    "map_of (timers (fetching_world\<lparr>now := 300000\<rparr>)) 1 = Some 300000"
    "300000 \<le> now (fetching_world\<lparr>now := 300000\<rparr>)"
    "map_of (calls (fetching_world\<lparr>now := 300000\<rparr>)) 1 = Some AwaitFetch"
    "map_of (calls fetching_world) 1 = Some AwaitFetch"
    by (simp_all add: selected_world_def fetching_world_def handleAnalyze_xray_jpg)
  show ?thesis
    using h selected_world_click
      request_timeout [where br = firefox and w = selected_world and w' = fetching_world]
      request_timeout [where br = firefox and w = fetching_world and i = 1 and d = 300000
        and status = 200]
      request_timeout [where br = firefox and w = "fetching_world\<lparr>now := 300000\<rparr>"
        and i = 1 and d = 300000]
    by simp
qed

text \<open>
  C6 claims that every analysis request is bounded by the timeout. The code misses the
  reading of the body: \<^verbatim>\<open>clearTimeout\<close> runs as soon as \<^verbatim>\<open>fetch\<close> resolves, before
  \<^verbatim>\<open>await response.json()\<close>. In the sample session the response with status 200
  arrives at once and its body never completes: whatever time \<open>n\<close> has passed, no timer
  is armed, none can fire, the call is still suspended at the parsing of the body, the
  loading flag is set and the button is disabled.
\<close>

theorem stalled_body_never_aborted:
  "run firefox initial_world
     [Change [xray_jpg], ReaderDone 0 (Loaded xray_jpg_url), ClickAnalyze,
      FetchSettled 1 (Inr 200), Tick n] = Some (parsing_world\<lparr>now := n\<rparr>)
   \<and> timers (parsing_world\<lparr>now := n\<rparr>) = []
   \<and> step firefox (parsing_world\<lparr>now := n\<rparr>) (TimerFired i) = None
   \<and> calls (parsing_world\<lparr>now := n\<rparr>) = [(1, AwaitJson)]
   \<and> isLoading (view (parsing_world\<lparr>now := n\<rparr>))
   \<and> button_disabled (view (parsing_world\<lparr>now := n\<rparr>))"
  by (simp add: world_simps handleAnalyze_xray_jpg after_fetch_def response_ok_def
        parsing_world_def fetching_world_def API_TIMEOUT_def)

text \<open>
  At 300,000 ms after the click, the time at which the timer of the call would have
  fired, the call is still waiting for the body.
\<close>

theorem stalled_body_never_aborted_witness:
  "run firefox initial_world
     [Change [xray_jpg], ReaderDone 0 (Loaded xray_jpg_url), ClickAnalyze,
      FetchSettled 1 (Inr 200), Tick 300000] = Some (parsing_world\<lparr>now := 300000\<rparr>)
   \<and> timers (parsing_world\<lparr>now := 300000\<rparr>) = []
   \<and> step firefox (parsing_world\<lparr>now := 300000\<rparr>) (TimerFired 1) = None
   \<and> calls (parsing_world\<lparr>now := 300000\<rparr>) = [(1, AwaitJson)]
   \<and> isLoading (view (parsing_world\<lparr>now := 300000\<rparr>))
   \<and> button_disabled (view (parsing_world\<lparr>now := 300000\<rparr>))"
  by (rule stalled_body_never_aborted)

section \<open>C7: a failed file intake\<close>

text \<open>
  C7 claims that after a failed intake, a read error included, the previous
  SelectedImage is untouched and the input's value is cleared. In the run below the
  JPEG is selected, then the picker delivers the PNG and its read fails: the selected
  image is gone, since \<^verbatim>\<open>loadend\<close> fires after \<^verbatim>\<open>error\<close> with a \<^verbatim>\<open>null\<close> result, and
  the input still holds the value of the PNG.
\<close>

theorem read_error_counterexample:
  "run firefox initial_world [Change [xray_jpg], ReaderDone 0 (Loaded xray_jpg_url)]
     = Some selected_world
   \<and> selectedImage (view selected_world) = Some xray_jpg_url
   \<and> run firefox selected_world [Change [scan_png], ReaderDone 1 ReadFailed]
     = Some (selected_world
              \<lparr>view := \<lparr>selectedImage = None, result = None, isLoading = False,
                         error = Some read_error_message\<rparr>,
               input_value := chosen_value [scan_png], next_id := 2\<rparr>)
   \<and> chosen_value [scan_png] \<noteq> []"
  by (simp add: world_simps selected_world_def chosen_value_def, simp add: lit_def)

text \<open>
  C7, as amended. When validation rejects the file the picker delivers, SelectedImage
  is left untouched, the message is shown and the input's value is cleared. When
  validation rejects a dropped file, SelectedImage is left untouched and the message
  is shown; the input is not involved. A read that succeeds replaces SelectedImage by
  the data URL. A read that fails shows the read-error message and leaves the input's
  value as it is. No event other than the completion of a reader changes
  SelectedImage.
\<close>

theorem intake_failure:
  "(validateFile f = Some m \<longrightarrow>
      (\<exists>w'. step br w (Change (f # fs)) = Some w'
         \<and> selectedImage (view w') = selectedImage (view w)
         \<and> error (view w') = Some m \<and> input_value w' = []))
   \<and> (validateFile f = Some m \<and> drop_zone_rendered (view w) \<longrightarrow>
      (\<exists>w'. step br w (Drop (f # fs)) = Some w'
         \<and> selectedImage (view w') = selectedImage (view w)
         \<and> error (view w') = Some m \<and> input_value w' = input_value w))
   \<and> (map_of (readers w) i = Some src \<longrightarrow>
      (\<exists>w'. step br w (ReaderDone i (Loaded url)) = Some w'
         \<and> selectedImage (view w') = Some url)
      \<and> (\<exists>w'. step br w (ReaderDone i ReadFailed) = Some w'
         \<and> error (view w') = Some read_error_message \<and> input_value w' = input_value w))
   \<and> ((\<forall>j outcome. e \<noteq> ReaderDone j outcome) \<and> step br w e = Some w' \<longrightarrow>
        selectedImage (view w') = selectedImage (view w))"
proof (intro conjI impI)
  assume "validateFile f = Some m"
  then show "\<exists>w'. step br w (Change (f # fs)) = Some w'
         \<and> selectedImage (view w') = selectedImage (view w)
         \<and> error (view w') = Some m \<and> input_value w' = []"
    using string_truthy_validateFile [of f]
    by (simp add: handleImageUpload_def index_simps)
next
  assume "validateFile f = Some m \<and> drop_zone_rendered (view w)"
  then show "\<exists>w'. step br w (Drop (f # fs)) = Some w'
         \<and> selectedImage (view w') = selectedImage (view w)
         \<and> error (view w') = Some m \<and> input_value w' = input_value w"
    using string_truthy_validateFile [of f]
    by (simp add: handleDrop_def index_simps)
next
  assume "map_of (readers w) i = Some src"
  then show "\<exists>w'. step br w (ReaderDone i (Loaded url)) = Some w'
         \<and> selectedImage (view w') = Some url"
    by (cases src) simp_all
next
  assume "map_of (readers w) i = Some src"
  then show "\<exists>w'. step br w (ReaderDone i ReadFailed) = Some w'
         \<and> error (view w') = Some read_error_message \<and> input_value w' = input_value w"
    by (cases src) (simp_all add: onerror_def)
next
  assume a: "(\<forall>j outcome. e \<noteq> ReaderDone j outcome) \<and> step br w e = Some w'"
  show "selectedImage (view w') = selectedImage (view w)"
  proof (cases e)
    case (Change files)
    with a show ?thesis
      by (auto simp: handleImageUpload_def Let_def split: option.splits if_splits)
  next
    case (Drop files)
    with a show ?thesis
      by (auto simp: handleDrop_def Let_def split: option.splits if_splits)
  next
    case ClickAnalyze
    with a show ?thesis
      using handleAnalyze_cases [of br "selectedImage (view w)"]
      by (auto simp: suspend_def split: if_splits)
  next
    case (FetchSettled i s)
    with a show ?thesis
      using after_fetch_cases [of s]
      by (auto simp: suspend_def split: option.splits await.splits)
  next
    case (TextSettled i s)
    with a obtain st where c: "map_of (calls w) i = Some (AwaitText st)"
      by (auto split: option.splits await.splits)
    obtain m where "after_text st s =
        [SetError (Some m), SetResult (Some error_result), SetIsLoading False]"
      using after_text_cases by blast
    with c TextSettled a show ?thesis
      by (auto simp: suspend_def)
  next
    case (JsonSettled i s)
    with a show ?thesis
      using after_json_cases [of s]
      by (auto simp: suspend_def split: option.splits await.splits)
  next
    case (TimerFired i)
    with a show ?thesis
      by (auto simp: suspend_def Let_def after_fetch_Inl
               split: option.splits await.splits if_splits)
  qed (use a in \<open>auto simp: handleDragOver_def split: if_splits\<close>)
qed

text \<open>
  The world in which the reader of the JPEG is pending: a GIF is rejected by the picker
  and by the drop zone, the read succeeds or fails, and a tick of the clock changes
  nothing.
\<close>

theorem intake_failure_witness:
  "run firefox initial_world [Change [xray_jpg]] = Some reading_world
   \<and> validateFile notes_gif = Some invalid_type_message
   \<and> drop_zone_rendered (view reading_world)
   \<and> map_of (readers reading_world) 0 = Some Picker
   \<and> (\<forall>j outcome. Tick 7 \<noteq> ReaderDone j outcome)
   \<and> step firefox reading_world (Tick 7) = Some (reading_world\<lparr>now := 7\<rparr>)
   \<and> (\<exists>w'. step firefox reading_world (Change [notes_gif]) = Some w'
         \<and> selectedImage (view w') = selectedImage (view reading_world)
         \<and> error (view w') = Some invalid_type_message \<and> input_value w' = [])
   \<and> (\<exists>w'. step firefox reading_world (Drop [notes_gif]) = Some w'
         \<and> selectedImage (view w') = selectedImage (view reading_world)
         \<and> error (view w') = Some invalid_type_message
         \<and> input_value w' = input_value reading_world)
   \<and> (\<exists>w'. step firefox reading_world (ReaderDone 0 (Loaded xray_jpg_url)) = Some w'
         \<and> selectedImage (view w') = Some xray_jpg_url)
   \<and> (\<exists>w'. step firefox reading_world (ReaderDone 0 ReadFailed) = Some w'
         \<and> error (view w') = Some read_error_message
         \<and> input_value w' = input_value reading_world)
   \<and> selectedImage (view (reading_world\<lparr>now := 7\<rparr>)) = selectedImage (view reading_world)"
proof -
  have h: "validateFile notes_gif = Some invalid_type_message"
    "drop_zone_rendered (view reading_world)"
    "map_of (readers reading_world) 0 = Some Picker"
    "\<forall>j outcome. Tick 7 \<noteq> ReaderDone j outcome"
    "step firefox reading_world (Tick 7) = Some (reading_world\<lparr>now := 7\<rparr>)"
    by (simp_all add: world_simps reading_world_def)
  show ?thesis
    using h reading_world_reached
      intake_failure [where f = notes_gif and m = invalid_type_message and br = firefox
        and w = reading_world and fs = "[]" and i = 0 and src = Picker
        and url = xray_jpg_url and e = "Tick 7" and w' = "reading_world\<lparr>now := 7\<rparr>"]
    by simp
qed

section \<open>C8: one request at a time\<close>

text \<open>
  C8. In every world reachable from the initial one, at most one call of
  \<open>handleAnalyze\<close> is suspended, and the loading flag is set exactly while one is. The
  button is disabled exactly when no image is selected or the flag is set, and a click
  occurs only when it is enabled. A call started by the button sets the flag first;
  every part of \<open>handleAnalyze\<close> that ends the call (failure before the fetch, rejected
  fetch or abort, the end of the text or JSON branch) clears the flag last.
\<close>

theorem one_request_at_a_time:
  "(run br initial_world es = Some w \<longrightarrow>
      length (calls w) \<le> 1 \<and> (isLoading (view w) \<longleftrightarrow> calls w \<noteq> [])
      \<and> ((\<exists>w'. step br w ClickAnalyze = Some w') \<longleftrightarrow>
           string_truthy (selectedImage (view w)) \<and> \<not> isLoading (view w)))
   \<and> (button_disabled st \<longleftrightarrow> \<not> string_truthy (selectedImage st) \<or> isLoading st)
   \<and> (step br v ClickAnalyze = Some v' \<longrightarrow>
        hd (fst (handleAnalyze br (selectedImage (view v)))) = SetIsLoading True)
   \<and> (string_truthy sel \<longrightarrow>
        hd (fst (handleAnalyze br sel)) = SetIsLoading True
        \<and> (snd (handleAnalyze br sel) = None \<longrightarrow>
             last (fst (handleAnalyze br sel)) = SetIsLoading False))
   \<and> last (fst (after_fetch (Inl e))) = SetIsLoading False
   \<and> last (after_text status t) = SetIsLoading False
   \<and> last (after_json j) = SetIsLoading False"
proof (intro conjI impI)
  assume "run br initial_world es = Some w"
  with run_invariant [OF initial_world_invariant] have "one_call w" by blast
  then show "length (calls w) \<le> 1" and "isLoading (view w) \<longleftrightarrow> calls w \<noteq> []"
    by (simp_all add: one_call_def)
next
  show "(\<exists>w'. step br w ClickAnalyze = Some w') \<longleftrightarrow>
      string_truthy (selectedImage (view w)) \<and> \<not> isLoading (view w)"
    by (rule click_enabled)
next
  show "button_disabled st \<longleftrightarrow> \<not> string_truthy (selectedImage st) \<or> isLoading st"
    by (simp add: button_disabled_def)
next
  assume "step br v ClickAnalyze = Some v'"
  then have "string_truthy (selectedImage (view v))"
    using click_enabled [of br v] by auto
  then show "hd (fst (handleAnalyze br (selectedImage (view v)))) = SetIsLoading True"
    by (simp add: handleAnalyze_def Let_def split: option.splits)
next
  assume "string_truthy sel"
  then show "hd (fst (handleAnalyze br sel)) = SetIsLoading True"
    by (simp add: handleAnalyze_def Let_def split: option.splits)
next
  assume "string_truthy sel" and "snd (handleAnalyze br sel) = None"
  then show "last (fst (handleAnalyze br sel)) = SetIsLoading False"
    by (simp add: handleAnalyze_def Let_def finally_block_def split: option.splits)
next
  show "last (fst (after_fetch (Inl e))) = SetIsLoading False"
    by (simp add: after_fetch_Inl)
next
  show "last (after_text status t) = SetIsLoading False"
    using after_text_cases [of status t] by auto
next
  show "last (after_json j) = SetIsLoading False"
    using after_json_cases [of j] by auto
qed

text \<open>
  After the click of the sample session one call is pending, the flag is set and a
  second click cannot occur; a data URL whose base64 part is the single character "A"
  makes the call fail before any fetch, and the flag is cleared.
\<close>

theorem one_request_at_a_time_witness:
  "run firefox initial_world
     [Change [xray_jpg], ReaderDone 0 (Loaded xray_jpg_url), ClickAnalyze] = Some fetching_world
   \<and> step firefox selected_world ClickAnalyze = Some fetching_world
   \<and> hd (fst (handleAnalyze firefox (selectedImage (view selected_world)))) = SetIsLoading True
   \<and> length (calls fetching_world) \<le> 1
   \<and> isLoading (view fetching_world) \<and> calls fetching_world \<noteq> []
   \<and> button_disabled (view fetching_world)
   \<and> \<not> (\<exists>w'. step firefox fetching_world ClickAnalyze = Some w')
   \<and> string_truthy (Some xray_jpg_url)
   \<and> hd (fst (handleAnalyze firefox (Some xray_jpg_url))) = SetIsLoading True
   \<and> string_truthy (Some (lit ''data:image/png;base64,A''))
   \<and> snd (handleAnalyze firefox (Some (lit ''data:image/png;base64,A''))) = None
   \<and> last (fst (handleAnalyze firefox (Some (lit ''data:image/png;base64,A''))))
       = SetIsLoading False"
proof -
  have "snd (handleAnalyze firefox (Some (lit ''data:image/png;base64,A''))) = None"
    by (simp add: handleAnalyze_def string_truthy_def lit_def index_def atob_def
          forgiving_base64_decode_def is_ascii_whitespace_def remove_padding_def)
  moreover have "string_truthy (Some (lit ''data:image/png;base64,A''))"
    by (simp add: string_truthy_def lit_def)
  moreover have "view fetching_world =
      \<lparr>selectedImage = Some xray_jpg_url, result = None, isLoading = True, error = None\<rparr>"
    by (simp add: fetching_world_def)
  ultimately show ?thesis
    using fetching_world_reached selected_world_click
      one_request_at_a_time [where br = firefox
        and es = "[Change [xray_jpg], ReaderDone 0 (Loaded xray_jpg_url), ClickAnalyze]"
        and w = fetching_world and st = "view fetching_world"
        and v = selected_world and v' = fetching_world
        and sel = "Some (lit ''data:image/png;base64,A'')"]
      one_request_at_a_time [where br = firefox and es = "[]" and w = initial_world
        and sel = "Some xray_jpg_url"]
    by (simp add: string_truthy_simps)
qed

section \<open>C9: drag and drop\<close>

text \<open>
  C9 claims that a drop leaves the same view state and input value as selecting the
  same file with the picker. After the picker has rejected a GIF, the error is
  displayed; dropping the JPEG then leaves the error displayed and the input empty,
  while picking the JPEG clears the error and leaves the input holding the file.
\<close>

theorem drop_differs_counterexample:
  "run firefox initial_world [Change [notes_gif]] = Some rejected_world
   \<and> run firefox rejected_world [Drop [xray_jpg], ReaderDone 0 (Loaded xray_jpg_url)]
     = Some (rejected_world
              \<lparr>view := \<lparr>selectedImage = Some xray_jpg_url, result = None, isLoading = False,
                         error = Some invalid_type_message\<rparr>,
               next_id := 1\<rparr>)
   \<and> run firefox rejected_world [Change [xray_jpg], ReaderDone 0 (Loaded xray_jpg_url)]
     = Some (rejected_world
              \<lparr>view := \<lparr>selectedImage = Some xray_jpg_url, result = None, isLoading = False,
                         error = None\<rparr>,
               input_value := chosen_value [xray_jpg], next_id := 1\<rparr>)
   \<and> input_value rejected_world = []
   \<and> chosen_value [xray_jpg] \<noteq> []"
  by (simp add: world_simps rejected_world_def chosen_value_def, simp add: lit_def)

text \<open>
  C9, as amended. The drop zone validates the file with \<open>validateFile\<close> and reads it
  as the picker does, and \<open>handleDrop\<close> and \<open>handleDragOver\<close> call
  \<^verbatim>\<open>preventDefault\<close>. In every reachable world that renders the drop zone, for the
  same files and the same outcome of the read, the drop leaves the same SelectedImage
  and loading flag as the picker; it leaves the same view state when neither an error
  nor a result was displayed before; and it never changes the input's value.
\<close>

theorem drop_matches_picker:
  "(run br initial_world es = Some w \<and> drop_zone_rendered (view w) \<longrightarrow>
      (\<exists>wd wp. run br w (intake Drop files outcome w) = Some wd
         \<and> run br w (intake Change files outcome w) = Some wp
         \<and> selectedImage (view wd) = selectedImage (view wp)
         \<and> isLoading (view wd) = isLoading (view wp)
         \<and> input_value wd = input_value w
         \<and> (error (view w) = None \<and> result (view w) = None \<longrightarrow> view wd = view wp)))
   \<and> hd (handleDrop files) = PreventDefault
   \<and> handleDragOver = [PreventDefault]"
proof (intro conjI impI)
  assume a: "run br initial_world es = Some w \<and> drop_zone_rendered (view w)"
  with run_invariant [OF initial_world_invariant] have "fresh_ids w" by blast
  then have "ids_below (next_id w) (readers w)"
    by (simp add: fresh_ids_def)
  then have fresh: "map_of (readers w @ [(next_id w, src)]) (next_id w) = Some src" for src
    by (rule map_of_fresh_snoc)
  show "\<exists>wd wp. run br w (intake Drop files outcome w) = Some wd
         \<and> run br w (intake Change files outcome w) = Some wp
         \<and> selectedImage (view wd) = selectedImage (view wp)
         \<and> isLoading (view wd) = isLoading (view wp)
         \<and> input_value wd = input_value w
         \<and> (error (view w) = None \<and> result (view w) = None \<longrightarrow> view wd = view wp)"
  proof (cases "index files 0")
    case None
    with a show ?thesis
      by (simp add: intake_def handleDrop_def handleImageUpload_def)
  next
    case (Some f)
    show ?thesis
    proof (cases "validateFile f")
      case None
      with Some a fresh show ?thesis
        by (cases outcome)
           (simp_all add: intake_def handleDrop_def handleImageUpload_def string_truthy_def
              onerror_def)
    next
      case (Some m)
      with \<open>index files 0 = Some f\<close> a show ?thesis
        using string_truthy_validateFile [of f]
        by (simp add: intake_def handleDrop_def handleImageUpload_def)
    qed
  qed
qed (simp_all add: handleDrop_def handleDragOver_def)

text \<open>Dropping and picking the JPEG in the initial world give the same view.\<close>

theorem drop_matches_picker_witness:
  "run firefox initial_world [] = Some initial_world
   \<and> drop_zone_rendered (view initial_world)
   \<and> error (view initial_world) = None \<and> result (view initial_world) = None
   \<and> (\<exists>wd wp.
         run firefox initial_world (intake Drop [xray_jpg] (Loaded xray_jpg_url) initial_world)
           = Some wd
         \<and> run firefox initial_world
              (intake Change [xray_jpg] (Loaded xray_jpg_url) initial_world) = Some wp
         \<and> selectedImage (view wd) = Some xray_jpg_url
         \<and> view wd = view wp \<and> input_value wd = [])"
proof -
  have h: "run firefox initial_world [] = Some initial_world"
    "drop_zone_rendered (view initial_world)"
    "error (view initial_world) = None" "result (view initial_world) = None"
    "input_value initial_world = []"
    by (simp_all add: world_simps)
  have "\<And>wd. run firefox initial_world
            (intake Drop [xray_jpg] (Loaded xray_jpg_url) initial_world) = Some wd
          \<Longrightarrow> selectedImage (view wd) = Some xray_jpg_url"
    by (auto simp: world_simps)
  with h show ?thesis
    using drop_matches_picker [where br = firefox and es = "[]" and w = initial_world
        and files = "[xray_jpg]" and outcome = "Loaded xray_jpg_url"]
    by auto
qed

section \<open>C10: the picker clears the result\<close>

text \<open>
  C10. Every \<^verbatim>\<open>change\<close> event of the picker can occur; the first two effects of
  \<open>handleImageUpload\<close> are to clear \<open>error\<close> and \<open>result\<close>, before the file is looked
  at; after the handler \<open>result\<close> is empty and SelectedImage is what it was, and
  \<open>error\<close> is the verdict of the validator on the first file, or empty when the event
  delivers no file.
\<close>

theorem change_clears_first:
  "\<exists>w'. step br w (Change files) = Some w'
     \<and> take 2 (handleImageUpload files) = [SetError None, SetResult None]
     \<and> result (view w') = None
     \<and> selectedImage (view w') = selectedImage (view w)
     \<and> error (view w') = (case index files 0 of None \<Rightarrow> None | Some f \<Rightarrow> validateFile f)"
  by (auto simp: handleImageUpload_def Let_def string_truthy_validateFile split: option.splits)

text \<open>
  With the result of the sample session shown, picking a GIF and a \<^verbatim>\<open>change\<close> event
  without a file both erase the result and keep the image.
\<close>

theorem change_clears_first_witness:
  "run firefox initial_world
     [Change [xray_jpg], ReaderDone 0 (Loaded xray_jpg_url), ClickAnalyze,
      FetchSettled 1 (Inr 200),
      JsonSettled 1
        (Inr (JObject [(lit ''predicao'', JString (lit ''Tuberculose'')),
                       (lit ''probabilidade'', JNumber (round_binary64 (87 / 100)))]))]
     = Some shown_world
   \<and> result (view shown_world) \<noteq> None
   \<and> selectedImage (view shown_world) = Some xray_jpg_url
   \<and> (\<exists>w'. step firefox shown_world (Change [notes_gif]) = Some w'
         \<and> result (view w') = None
         \<and> selectedImage (view w') = Some xray_jpg_url
         \<and> error (view w') = Some invalid_type_message)
   \<and> (\<exists>w'. step firefox shown_world (Change []) = Some w'
         \<and> result (view w') = None
         \<and> selectedImage (view w') = Some xray_jpg_url
         \<and> error (view w') = None)"
proof -
  have h: "result (view shown_world) \<noteq> None"
    "selectedImage (view shown_world) = Some xray_jpg_url"
    by (simp_all add: shown_world_def)
  show ?thesis
    using h shown_world_reached
      change_clears_first [of firefox shown_world "[notes_gif]"]
      change_clears_first [of firefox shown_world "[]"]
    by (simp add: index_simps validateFile_samples)
qed

end
